theory Spec2Isabelle
  imports Main "HOL-Library.Sublist"
begin

section \<open>The hosted backend, as the data-access layer sees it\<close>

text \<open>
  The functions of \<^verbatim>\<open>src/lib/supabase.ts\<close> are sequences of awaited requests to a
  hosted store. The store is modelled by its tables (lists of rows, in insertion order)
  and the session of the caller. Columns the modelled functions never read are left out.
  Field names carry a prefix per table, since two records cannot share a field name:
  \<^verbatim>\<open>t_\<close> for \<^verbatim>\<open>group_trips\<close>, \<^verbatim>\<open>p_\<close> for \<^verbatim>\<open>trip_participants\<close>, \<^verbatim>\<open>f_\<close> for
  \<^verbatim>\<open>user_followers\<close>, \<^verbatim>\<open>s_\<close> for \<^verbatim>\<open>user_stats\<close>, \<^verbatim>\<open>l_\<close> for \<^verbatim>\<open>post_likes\<close>,
  \<^verbatim>\<open>post_\<close> for \<^verbatim>\<open>user_posts\<close>, \<^verbatim>\<open>pr_\<close> for \<^verbatim>\<open>user_profiles\<close>, \<^verbatim>\<open>c_\<close> for
  \<^verbatim>\<open>trip_chat_messages\<close>, \<^verbatim>\<open>m_\<close> for \<^verbatim>\<open>media_files\<close>.
\<close>

type_synonym uuid = string

text \<open>A PostgrestError: the fields the code inspects.\<close>

record pg_error =
  code :: string
  message :: string

text \<open>What a data-access function throws: \<^verbatim>\<open>new Error(msg)\<close>, a PostgrestError
  rethrown as it is, or the TypeError of reading a property of \<^verbatim>\<open>null\<close>.\<close>

datatype js_error = Error string | Thrown pg_error | TypeError

record trip =
  t_id :: uuid
  t_organizer_id :: uuid
  t_status :: string
  t_max_participants :: "int option"
  t_current_participants :: "int option"

record participant =
  p_trip_id :: uuid
  p_user_id :: uuid
  p_status :: "string option"

record follow =
  f_follower_id :: uuid
  f_following_id :: uuid

record stats =
  s_user_id :: uuid
  s_followers_count :: int
  s_following_count :: int

record like =
  l_user_id :: uuid
  l_post_id :: uuid

record post =
  post_id :: uuid
  post_user_id :: uuid
  post_is_public :: bool
  post_created_at :: int

record profile =
  pr_user_id :: uuid
  pr_username :: string
  pr_display_name :: string
  pr_avatar_url :: "string option"

text \<open>A chat message is kept as its UTF-16 code units, since \<^verbatim>\<open>trim\<close> looks at
  characters outside ASCII.\<close>

type_synonym utf16 = "nat list"

record chat_message =
  c_trip_id :: uuid
  c_sender_id :: uuid
  c_message :: utf16

record media =
  m_user_id :: uuid
  m_filename :: string
  m_original_name :: string
  m_file_size :: nat
  m_mime_type :: string
  m_storage_path :: string
  m_public_url :: string
  m_entity_type :: string
  m_is_public :: bool

record db =
  session :: "uuid option"
  group_trips :: "trip list"
  trip_participants :: "participant list"
  user_followers :: "follow list"
  user_stats :: "stats list"
  post_likes :: "like list"
  user_posts :: "post list"
  user_profiles :: "profile list"
  trip_chat_messages :: "chat_message list"
  storage_objects :: "(string \<times> string) list"
  media_files :: "media list"

text \<open>The requests the modelled functions send, one constructor per call site kind.\<close>

datatype request =
    AuthGetUser
  | SelectTrip uuid
  | SelectParticipation uuid uuid
  | VerifyTrip uuid
  | InsertParticipant uuid uuid "string option"
  | DeleteParticipant uuid uuid
  | InsertTrip uuid "int option"
  | SelectJoinedParticipations uuid "string list"
  | SelectTripsIn "uuid list"
  | SelectProfilesIn "uuid list"
  | SelectChatParticipation uuid uuid "string list"
  | SelectTripOrganizer uuid
  | InsertChatMessage uuid uuid utf16
  | SelectFollow uuid uuid
  | InsertFollow uuid uuid
  | DeleteFollow uuid uuid
  | CountFollowers uuid
  | CountFollowing uuid
  | UpsertFollowersCount uuid int
  | UpsertFollowingCount uuid int
  | SelectLike uuid uuid
  | InsertLike uuid uuid
  | DeleteLike uuid uuid
  | SelectFeed int int
  | StorageUpload string string
  | InsertMedia media

text \<open>
  What the code cannot know of the backend is a parameter: \<open>faults\<close> says whether the
  backend (or the transport) fails a request, and with which error, given the store the
  request meets; \<open>status_default\<close> is the column default of
  \<^verbatim>\<open>trip_participants.status\<close>; \<open>new_trip_id\<close> is the identifier the backend gives
  an inserted trip, \<open>trip_status_default\<close> and \<open>trip_count_default\<close> the column
  defaults of \<^verbatim>\<open>group_trips.status\<close> and \<^verbatim>\<open>group_trips.current_participants\<close>;
  \<open>stats_default\<close> is the default of the counters of \<^verbatim>\<open>user_stats\<close>;
  \<open>public_base\<close> is the prefix of the public URL of a stored object.
  A failed request leaves the store as it was; an accepted write changes the one table
  it names. The answer to a request depends on the store and the request only, so a
  read is answered from the rows that are there, and \<^verbatim>\<open>.single()\<close> fails on no row and
  on several rows alike. Requests of one call run one after the other with no other
  client in between.
\<close>

record backend =
  faults :: "db \<Rightarrow> request \<Rightarrow> pg_error option"
  status_default :: "string option"
  new_trip_id :: "db \<Rightarrow> uuid"
  trip_status_default :: string
  trip_count_default :: "int option"
  stats_default :: int
  public_base :: string

text \<open>The store together with the requests sent so far, oldest first.\<close>

record world =
  store :: db
  sent :: "request list"

definition send :: "backend \<Rightarrow> request \<Rightarrow> world \<Rightarrow> pg_error option \<times> world" where
  "send be r w = (faults be (store w) r, w\<lparr>sent := sent w @ [r]\<rparr>)"

definition PGRST116 :: pg_error where
  "PGRST116 = \<lparr>code = ''PGRST116'', message = ''JSON object requested, multiple (or no) rows returned''\<rparr>"

text \<open>\<^verbatim>\<open>.single()\<close>: the row when exactly one row matches, error PGRST116 otherwise.\<close>

definition single :: "'a list \<Rightarrow> pg_error + 'a" where
  "single rows = (case rows of [r] \<Rightarrow> Inr r | _ \<Rightarrow> Inl PGRST116)"

text \<open>\<^verbatim>\<open>(await supabase.auth.getUser()).data.user\<close>: \<^verbatim>\<open>null\<close> without a session or
  when the request fails.\<close>

definition getUser :: "backend \<Rightarrow> world \<Rightarrow> uuid option \<times> world" where
  "getUser be w =
     (case send be AuthGetUser w of
        (Some e, w') \<Rightarrow> (None, w')
      | (None, w') \<Rightarrow> (session (store w'), w'))"

text \<open>\<^verbatim>\<open>from('group_trips').select(..).eq('id', tripId).single()\<close>, sent as \<open>r\<close>.\<close>

definition select_trip :: "backend \<Rightarrow> request \<Rightarrow> uuid \<Rightarrow> world \<Rightarrow> (pg_error + trip) \<times> world" where
  "select_trip be r tripId w =
     (case send be r w of
        (Some e, w') \<Rightarrow> (Inl e, w')
      | (None, w') \<Rightarrow> (single (filter (\<lambda>t. t_id t = tripId) (group_trips (store w'))), w'))"

definition participations :: "db \<Rightarrow> uuid \<Rightarrow> uuid \<Rightarrow> participant list" where
  "participations d tripId uid =
     filter (\<lambda>p. p_trip_id p = tripId \<and> p_user_id p = uid) (trip_participants d)"

text \<open>\<^verbatim>\<open>from('trip_participants').select('id').eq('trip_id', ..).eq('user_id', ..).single()\<close>\<close>

definition select_participation ::
  "backend \<Rightarrow> uuid \<Rightarrow> uuid \<Rightarrow> world \<Rightarrow> (pg_error + participant) \<times> world" where
  "select_participation be tripId uid w =
     (case send be (SelectParticipation tripId uid) w of
        (Some e, w') \<Rightarrow> (Inl e, w')
      | (None, w') \<Rightarrow> (single (participations (store w') tripId uid), w'))"

text \<open>\<^verbatim>\<open>from('trip_participants').insert({trip_id, user_id, status?}).select().single()\<close>:
  rejected by the backend, or the row is appended; a status left out takes the column
  default.\<close>

definition insert_participant ::
  "backend \<Rightarrow> uuid \<Rightarrow> uuid \<Rightarrow> string option \<Rightarrow> world \<Rightarrow> (pg_error + participant) \<times> world" where
  "insert_participant be tripId uid st w =
     (case send be (InsertParticipant tripId uid st) w of
        (Some e, w') \<Rightarrow> (Inl e, w')
      | (None, w') \<Rightarrow>
          (let row = \<lparr>p_trip_id = tripId, p_user_id = uid,
                      p_status = (case st of None \<Rightarrow> status_default be | Some x \<Rightarrow> Some x)\<rparr>
           in (Inr row,
               w'\<lparr>store := (store w')\<lparr>trip_participants := trip_participants (store w') @ [row]\<rparr>\<rparr>)))"

section \<open>Joining a trip\<close>

text \<open>JavaScript's \<^verbatim>\<open>a >= b\<close> on columns that are numbers or \<^verbatim>\<open>null\<close>: \<^verbatim>\<open>null\<close>
  converts to 0.\<close>

definition js_num :: "int option \<Rightarrow> int" where
  "js_num x = (case x of None \<Rightarrow> 0 | Some n \<Rightarrow> n)"

definition js_ge :: "int option \<Rightarrow> int option \<Rightarrow> bool" where
  "js_ge a b = (js_num a \<ge> js_num b)"

text \<open>\<^verbatim>\<open>s.includes(sub)\<close>\<close>

fun js_includes :: "string \<Rightarrow> string \<Rightarrow> bool" where
  "js_includes [] sub = (sub = [])"
| "js_includes (c # cs) sub = (prefix sub (c # cs) \<or> js_includes cs sub)"

definition statusValues :: "string list" where
  "statusValues = [''joined'', ''confirmed'', ''accepted'', ''active'']"

text \<open>
  The \<^verbatim>\<open>for (const statusValue of statusValues)\<close> loop of \<^verbatim>\<open>joinTrip\<close>, with its two
  variables \<^verbatim>\<open>insertData\<close> and \<^verbatim>\<open>insertError\<close>: it leaves at the first insert without
  an error, and at the first error whose code is not 23514.
\<close>

fun tryStatuses ::
  "backend \<Rightarrow> uuid \<Rightarrow> uuid \<Rightarrow> string list \<Rightarrow> pg_error option \<Rightarrow> world
    \<Rightarrow> participant option \<times> pg_error option \<times> world" where
  "tryStatuses be tripId uid [] insertError w = (None, insertError, w)"
| "tryStatuses be tripId uid (statusValue # rest) insertError w =
     (case insert_participant be tripId uid (Some statusValue) w of
        (Inr data, w') \<Rightarrow> (Some data, insertError, w')
      | (Inl error, w') \<Rightarrow>
          if code error \<noteq> ''23514'' then (None, Some error, w')
          else tryStatuses be tripId uid rest (Some error) w')"

definition NotAuthenticated :: js_error where
  "NotAuthenticated = Error ''User not authenticated''"

definition NotFound :: "uuid \<Rightarrow> js_error" where
  "NotFound tripId = Error (''Trip not found: '' @ tripId)"

definition NotOpen :: js_error where
  "NotOpen = Error ''Trip is not open for new participants''"

definition Full :: js_error where
  "Full = Error ''Trip is full''"

definition AlreadyJoined :: js_error where
  "AlreadyJoined = Error ''You are already a participant in this trip''"

definition TripMissing :: "uuid \<Rightarrow> js_error" where
  "TripMissing tripId =
     Error (''Trip with ID '' @ tripId @ '' does not exist in the database. Please refresh the page.'')"

definition StatusValidation :: js_error where
  "StatusValidation =
     Error ''Unable to join trip due to status validation. The trip may have specific requirements. Please contact the organizer.''"

text \<open>The \<^verbatim>\<open>if (!insertData) { ... }\<close> block after the loop.\<close>

definition joinOutcome :: "uuid \<Rightarrow> participant option \<Rightarrow> pg_error option \<Rightarrow> js_error + participant" where
  "joinOutcome tripId insertData insertError =
     (case insertData of
        Some row \<Rightarrow> Inr row
      | None \<Rightarrow>
          (case insertError of
             None \<Rightarrow> Inl TypeError
           | Some e \<Rightarrow>
               if code e = ''23503'' \<and> js_includes (message e) ''trip_participants_trip_id_fkey''
               then Inl (TripMissing tripId)
               else if code e = ''23514'' then Inl StatusValidation
               else Inl (Thrown e)))"

definition joinTrip :: "backend \<Rightarrow> uuid \<Rightarrow> world \<Rightarrow> (js_error + participant) \<times> world" where
  "joinTrip be tripId w0 =
     (case getUser be w0 of
        (None, w1) \<Rightarrow> (Inl NotAuthenticated, w1)
      | (Some uid, w1) \<Rightarrow>
     (case select_trip be (SelectTrip tripId) tripId w1 of
        (Inl tripError, w2) \<Rightarrow> (Inl (NotFound tripId), w2)
      | (Inr trip, w2) \<Rightarrow>
          if t_status trip \<noteq> ''open'' then (Inl NotOpen, w2)
          else if js_ge (t_current_participants trip) (t_max_participants trip) then (Inl Full, w2)
          else
     (case select_participation be tripId uid w2 of
        (Inr existingParticipation, w3) \<Rightarrow> (Inl AlreadyJoined, w3)
      | (Inl checkError, w3) \<Rightarrow>
     (case select_trip be (VerifyTrip tripId) tripId w3 of
        (Inl verifyError, w4) \<Rightarrow>
          (Inl (Error (''Trip verification failed: '' @ message verifyError)), w4)
      | (Inr verifyTrip, w4) \<Rightarrow>
     (case tryStatuses be tripId uid statusValues None w4 of
        (insertData, insertError, w5) \<Rightarrow> (joinOutcome tripId insertData insertError, w5))))))"

section \<open>Leaving a trip, creating a trip\<close>

text \<open>\<^verbatim>\<open>leaveTrip\<close>: the delete request removes every row of the pair (trip, caller).\<close>

definition leaveTrip :: "backend \<Rightarrow> uuid \<Rightarrow> world \<Rightarrow> (js_error + bool) \<times> world" where
  "leaveTrip be tripId w0 =
     (case getUser be w0 of
        (None, w1) \<Rightarrow> (Inl NotAuthenticated, w1)
      | (Some uid, w1) \<Rightarrow>
     (case send be (DeleteParticipant tripId uid) w1 of
        (Some error, w2) \<Rightarrow> (Inl (Thrown error), w2)
      | (None, w2) \<Rightarrow>
          (Inr True,
           w2\<lparr>store := (store w2)\<lparr>trip_participants :=
                 filter (\<lambda>p. \<not> (p_trip_id p = tripId \<and> p_user_id p = uid))
                   (trip_participants (store w2))\<rparr>\<rparr>)))"

text \<open>
  \<^verbatim>\<open>createTrip\<close>. Of the payload only \<^verbatim>\<open>organizer_id\<close> and \<^verbatim>\<open>max_participants\<close> are
  modelled; \<open>maxParticipants\<close> is the value of
  \<^verbatim>\<open>tripData.maxParticipants ? parseInt(tripData.maxParticipants) : 10\<close> as it is sent
  (\<open>None\<close> for \<^verbatim>\<open>NaN\<close>, which JSON sends as \<^verbatim>\<open>null\<close>). The result of the second insert,
  which enrols the organizer, is not looked at.
\<close>

definition createTrip :: "backend \<Rightarrow> int option \<Rightarrow> world \<Rightarrow> (js_error + trip) \<times> world" where
  "createTrip be maxParticipants w0 =
     (case getUser be w0 of
        (None, w1) \<Rightarrow> (Inl NotAuthenticated, w1)
      | (Some uid, w1) \<Rightarrow>
     (case send be (InsertTrip uid maxParticipants) w1 of
        (Some error, w2) \<Rightarrow> (Inl (Thrown error), w2)
      | (None, w2) \<Rightarrow>
          (let data = \<lparr>t_id = new_trip_id be (store w2), t_organizer_id = uid,
                       t_status = trip_status_default be,
                       t_max_participants = maxParticipants,
                       t_current_participants = trip_count_default be\<rparr>;
               w3 = w2\<lparr>store := (store w2)\<lparr>group_trips := group_trips (store w2) @ [data]\<rparr>\<rparr>
           in (case insert_participant be (t_id data) uid None w3 of
                 (res, w4) \<Rightarrow> (Inr data, w4)))))"

section \<open>Reads that filter participation by status\<close>

definition getUserJoinedTrips_statuses :: "string list" where
  "getUserJoinedTrips_statuses = [''joined'', ''confirmed'', ''accepted'', ''active'', ''pending'']"

definition sendTripMessage_statuses :: "string list" where
  "sendTripMessage_statuses = [''joined'', ''confirmed'', ''accepted'', ''active'', ''pending'']"

definition debugChatPermission_statuses :: "string list" where
  "debugChatPermission_statuses = [''joined'', ''confirmed'', ''accepted'', ''active'', ''pending'']"

text \<open>\<^verbatim>\<open>.in('status', labels)\<close>: a \<^verbatim>\<open>NULL\<close> status matches no label.\<close>

definition status_in :: "string list \<Rightarrow> participant \<Rightarrow> bool" where
  "status_in labels p = (case p_status p of None \<Rightarrow> False | Some s \<Rightarrow> s \<in> set labels)"

text \<open>\<^verbatim>\<open>profiles?.find(p => p.user_id === organizer_id) || { placeholder }\<close>\<close>

definition organizer_or_placeholder :: "profile list \<Rightarrow> uuid \<Rightarrow> profile" where
  "organizer_or_placeholder profiles organizerId =
     (case find (\<lambda>p. pr_user_id p = organizerId) profiles of
        Some p \<Rightarrow> p
      | None \<Rightarrow> \<lparr>pr_user_id = organizerId, pr_username = ''unknown'',
                  pr_display_name = ''Anonymous Organizer'', pr_avatar_url = None\<rparr>)"

definition getUserJoinedTrips ::
  "backend \<Rightarrow> uuid \<Rightarrow> world \<Rightarrow> (js_error + (trip \<times> profile) list) \<times> world" where
  "getUserJoinedTrips be userId w0 =
     (case send be (SelectJoinedParticipations userId getUserJoinedTrips_statuses) w0 of
        (Some participationsError, w1) \<Rightarrow> (Inl (Thrown participationsError), w1)
      | (None, w1) \<Rightarrow>
          (let participations =
                 filter (\<lambda>p. p_user_id p = userId \<and> status_in getUserJoinedTrips_statuses p)
                   (trip_participants (store w1))
           in if participations = [] then (Inr [], w1)
              else
                (let tripIds = map p_trip_id participations
                 in case send be (SelectTripsIn tripIds) w1 of
                      (Some tripsError, w2) \<Rightarrow> (Inl (Thrown tripsError), w2)
                    | (None, w2) \<Rightarrow>
                        (let tripsData = filter (\<lambda>t. t_id t \<in> set tripIds) (group_trips (store w2));
                             organizerIds = map t_organizer_id tripsData
                         in case send be (SelectProfilesIn organizerIds) w2 of
                              (organizerError, w3) \<Rightarrow>
                                (let organizerProfiles =
                                       (case organizerError of
                                          Some e \<Rightarrow> []
                                        | None \<Rightarrow> filter (\<lambda>p. pr_user_id p \<in> set organizerIds)
                                                    (user_profiles (store w3)))
                                 in (Inr (map (\<lambda>t. (t, organizer_or_placeholder organizerProfiles
                                                         (t_organizer_id t))) tripsData), w3))))))"

text \<open>The permission check of \<^verbatim>\<open>sendTripMessage\<close> and of \<^verbatim>\<open>debugChatPermission\<close>:
  \<^verbatim>\<open>(!partError && participation) || (trip && trip.organizer_id === user.id)\<close>, after
  the two \<^verbatim>\<open>.single()\<close> reads.\<close>

definition chat_permission ::
  "backend \<Rightarrow> string list \<Rightarrow> uuid \<Rightarrow> uuid \<Rightarrow> world \<Rightarrow> bool \<times> world" where
  "chat_permission be labels tripId uid w0 =
     (case send be (SelectChatParticipation tripId uid labels) w0 of
        (partFault, w1) \<Rightarrow>
     (case send be (SelectTripOrganizer tripId) w1 of
        (tripFault, w2) \<Rightarrow>
          (let participation =
                 (case partFault of
                    Some e \<Rightarrow> Inl e
                  | None \<Rightarrow> single (filter (status_in labels) (participations (store w1) tripId uid)));
               trip =
                 (case tripFault of
                    Some e \<Rightarrow> Inl e
                  | None \<Rightarrow> single (filter (\<lambda>t. t_id t = tripId) (group_trips (store w2))))
           in ((case participation of Inl partError \<Rightarrow> False | Inr p \<Rightarrow> True) \<or>
               (case trip of Inl tripError \<Rightarrow> False | Inr t \<Rightarrow> t_organizer_id t = uid), w2))))"

text \<open>
  \<^verbatim>\<open>message.trim()\<close> removes, at both ends, the code units that ECMAScript calls
  WhiteSpace (U+0009, U+000B, U+000C, U+FEFF and the space separators U+0020, U+00A0,
  U+1680, U+2000 to U+200A, U+202F, U+205F, U+3000) or LineTerminator (U+000A, U+000D,
  U+2028, U+2029). All of them are single code units.
\<close>

definition is_space :: "nat \<Rightarrow> bool" where
  "is_space c \<longleftrightarrow>
     c \<in> set [0x0009, 0x000A, 0x000B, 0x000C, 0x000D, 0x0020, 0x00A0, 0x1680,
               0x2028, 0x2029, 0x202F, 0x205F, 0x3000, 0xFEFF] \<or>
     (0x2000 \<le> c \<and> c \<le> 0x200A)"

definition trim :: "utf16 \<Rightarrow> utf16" where
  "trim s = rev (dropWhile is_space (rev (dropWhile is_space s)))"

definition NotPermitted :: js_error where
  "NotPermitted = Error ''You must be a participant or organizer to send messages''"

definition sendTripMessage ::
  "backend \<Rightarrow> uuid \<Rightarrow> utf16 \<Rightarrow> world \<Rightarrow> (js_error + chat_message) \<times> world" where
  "sendTripMessage be tripId msg w0 =
     (case getUser be w0 of
        (None, w1) \<Rightarrow> (Inl NotAuthenticated, w1)
      | (Some uid, w1) \<Rightarrow>
     (case chat_permission be sendTripMessage_statuses tripId uid w1 of
        (canSendMessage, w2) \<Rightarrow>
          if \<not> canSendMessage then (Inl NotPermitted, w2)
          else
     (case send be (InsertChatMessage tripId uid (trim msg)) w2 of
        (Some error, w3) \<Rightarrow> (Inl (Thrown error), w3)
      | (None, w3) \<Rightarrow>
          (let data = \<lparr>c_trip_id = tripId, c_sender_id = uid, c_message = trim msg\<rparr>
           in (Inr data,
               w3\<lparr>store := (store w3)\<lparr>trip_chat_messages :=
                     trip_chat_messages (store w3) @ [data]\<rparr>\<rparr>)))))"

text \<open>\<^verbatim>\<open>window.debugChatPermission\<close>: the value it logs as \<^verbatim>\<open>canChat\<close>; it returns
  early without a user.\<close>

definition debugChatPermission :: "backend \<Rightarrow> uuid \<Rightarrow> world \<Rightarrow> bool option \<times> world" where
  "debugChatPermission be tripId w0 =
     (case getUser be w0 of
        (None, w1) \<Rightarrow> (None, w1)
      | (Some uid, w1) \<Rightarrow>
          (case chat_permission be debugChatPermission_statuses tripId uid w1 of
             (canChat, w2) \<Rightarrow> (Some canChat, w2)))"

section \<open>Follow and unfollow\<close>

















section \<open>Likes\<close>




section \<open>The global feed\<close>

text \<open>The author data merged into a feed post; the placeholder has no \<^verbatim>\<open>user_id\<close>.\<close>

record author =
  a_user_id :: "uuid option"
  a_username :: string
  a_display_name :: string
  a_avatar_url :: "string option"

definition anonymous_user :: author where
  "anonymous_user =
     \<lparr>a_user_id = None, a_username = ''unknown'', a_display_name = ''Anonymous User'',
      a_avatar_url = None\<rparr>"

definition author_of :: "profile \<Rightarrow> author" where
  "author_of p =
     \<lparr>a_user_id = Some (pr_user_id p), a_username = pr_username p,
      a_display_name = pr_display_name p, a_avatar_url = pr_avatar_url p\<rparr>"

text \<open>
  \<^verbatim>\<open>.eq('is_public', true).order('created_at', { ascending: false }).range(offset, offset + limit - 1)\<close>:
  the public posts, newest first, from row \<open>offset\<close> on, \<open>limit\<close> of them. The order among
  equal timestamps and the answer to a negative offset or limit are the backend's; here
  the sort is stable and such a range is an error.
\<close>

definition range_error :: pg_error where
  "range_error = \<lparr>code = ''PGRST103'', message = ''Requested range not satisfiable''\<rparr>"

definition feed_page :: "db \<Rightarrow> int \<Rightarrow> int \<Rightarrow> pg_error + post list" where
  "feed_page d limit offset =
     (if offset < 0 \<or> limit < 0 then Inl range_error
      else Inr (take (nat limit) (drop (nat offset)
             (sort_key (\<lambda>p. - post_created_at p) (filter post_is_public (user_posts d))))))"

definition getGlobalFeed :: "backend \<Rightarrow> int \<Rightarrow> int \<Rightarrow> world \<Rightarrow> (post \<times> author) list \<times> world" where
  "getGlobalFeed be limit offset w0 =
     (case send be (SelectFeed limit offset) w0 of
        (postsFault, w1) \<Rightarrow>
     (case (case postsFault of Some e \<Rightarrow> Inl e | None \<Rightarrow> feed_page (store w1) limit offset) of
        Inl postsError \<Rightarrow> ([], w1)
      | Inr postsData \<Rightarrow>
          if postsData = [] then ([], w1)
          else
            (let userIds = rev (remdups (rev (map post_user_id postsData)))
             in case send be (SelectProfilesIn userIds) w1 of
                  (Some profilesError, w2) \<Rightarrow> (map (\<lambda>p. (p, anonymous_user)) postsData, w2)
                | (None, w2) \<Rightarrow>
                    (let profilesData =
                           filter (\<lambda>p. pr_user_id p \<in> set userIds) (user_profiles (store w2))
                     in (map (\<lambda>post.
                               (post,
                                case find (\<lambda>p. pr_user_id p = post_user_id post) profilesData of
                                  Some profile \<Rightarrow> author_of profile
                                | None \<Rightarrow> anonymous_user)) postsData, w2)))))"

section \<open>Uploads\<close>

record js_file =
  file_name :: string
  file_size :: nat
  file_type :: string

text \<open>\<^verbatim>\<open>UploadOptions\<close>; an absent \<^verbatim>\<open>folder\<close> is the empty string, which is falsy as well.\<close>

record upload_options =
  bucket :: string
  folder :: string
  maxSize :: "nat option"
  allowedTypes :: "string list option"

record upload_result =
  r_url :: string
  r_path :: string
  r_error :: "string option"

text \<open>A number printed in decimal, as \<^verbatim>\<open>String(n)\<close> prints a natural number.\<close>

definition digit :: "nat \<Rightarrow> char" where
  "digit k = ''0123456789'' ! k"

fun string_of_nat :: "nat \<Rightarrow> string" where
  "string_of_nat n = (if 9 < n then string_of_nat (n div 10) else []) @ [digit (n mod 10)]"

declare string_of_nat.simps [simp del]

text \<open>\<^verbatim>\<open>Math.floor(Math.log(bytes) / Math.log(1024))\<close>, in exact arithmetic (the double
  quotient can differ from it next to a power of 1024 only).\<close>

fun log1024 :: "nat \<Rightarrow> nat" where
  "log1024 n = (if n < 1024 then 0 else Suc (log1024 (n div 1024)))"

declare log1024.simps [simp del]

text \<open>\<^verbatim>\<open>parseFloat(x.toFixed(2))\<close> printed: \<open>h\<close> is \<open>x\<close> in hundredths, rounded half up;
  trailing zeros of the fraction are not printed.\<close>

definition show_hundredths :: "nat \<Rightarrow> string" where
  "show_hundredths h =
     (if h mod 100 = 0 then string_of_nat (h div 100)
      else if h mod 10 = 0 then string_of_nat (h div 100) @ ''.'' @ string_of_nat (h mod 100 div 10)
      else string_of_nat (h div 100) @ ''.'' @ string_of_nat (h mod 100 div 10)
             @ string_of_nat (h mod 10))"

definition sizes :: "string list" where
  "sizes = [''Bytes'', ''KB'', ''MB'', ''GB'']"

definition formatFileSize :: "nat \<Rightarrow> string" where
  "formatFileSize bytes =
     (if bytes = 0 then ''0 Bytes''
      else
        (let i = log1024 bytes;
             h = (bytes * 200 + 1024 ^ i) div (2 * 1024 ^ i)
         in show_hundredths h @ '' '' @ (if i < length sizes then sizes ! i else ''undefined'')))"

text \<open>\<^verbatim>\<open>file.name.split('.').pop()\<close>\<close>

definition file_ext :: "string \<Rightarrow> string" where
  "file_ext name = rev (takeWhile (\<lambda>c. c \<noteq> CHR ''.'') (rev name))"

definition getEntityTypeFromBucket :: "string \<Rightarrow> string" where
  "getEntityTypeFromBucket b =
     (if b = ''avatars'' then ''profile_avatar''
      else if b = ''post-images'' then ''post_image''
      else if b = ''stories'' then ''story_media''
      else if b = ''chat-media'' then ''chat_media''
      else if b = ''trip-images'' then ''trip_image''
      else if b = ''bike-images'' then ''bike_image''
      else ''unknown'')"

text \<open>\<^verbatim>\<open>saveFileMetadata\<close>: an insert whose failure is ignored.\<close>

definition saveFileMetadata :: "backend \<Rightarrow> media \<Rightarrow> world \<Rightarrow> world" where
  "saveFileMetadata be row w =
     (case send be (InsertMedia row) w of
        (Some e, w') \<Rightarrow> w'
      | (None, w') \<Rightarrow> w'\<lparr>store := (store w')\<lparr>media_files := media_files (store w') @ [row]\<rparr>\<rparr>)"

text \<open>The first validation of \<^verbatim>\<open>uploadFile\<close>:
  \<^verbatim>\<open>if (options.maxSize && file.size > options.maxSize)\<close>, with the message it returns.\<close>

definition size_error :: "upload_options \<Rightarrow> js_file \<Rightarrow> string option" where
  "size_error options f =
     (case maxSize options of
        None \<Rightarrow> None
      | Some m \<Rightarrow>
          if m \<noteq> 0 \<and> file_size f > m
          then Some (''File size exceeds '' @ formatFileSize m @ '' limit'')
          else None)"

text \<open>
  \<^verbatim>\<open>uploadFile\<close>. \<open>unique\<close> stands for \<^verbatim>\<open>`${timestamp}_${randomString}`\<close>, which the
  clock and the random generator give. The two validations come before the first
  request.
\<close>

definition uploadFile ::
  "backend \<Rightarrow> string \<Rightarrow> js_file \<Rightarrow> upload_options \<Rightarrow> string \<Rightarrow> world \<Rightarrow> upload_result \<times> world" where
  "uploadFile be unique f options userId w0 =
     (case size_error options f of
        Some msg \<Rightarrow> (\<lparr>r_url = [], r_path = [], r_error = Some msg\<rparr>, w0)
      | None \<Rightarrow>
      if (case allowedTypes options of None \<Rightarrow> False | Some ts \<Rightarrow> file_type f \<notin> set ts)
      then (\<lparr>r_url = [], r_path = [],
              r_error = Some (''File type '' @ file_type f @ '' is not allowed'')\<rparr>, w0)
      else
        (let fileName = unique @ ''.'' @ file_ext (file_name f);
             dir = (if folder options \<noteq> [] then folder options
                    else if userId \<noteq> [] then userId else ''uploads'');
             filePath = dir @ ''/'' @ fileName
         in case send be (StorageUpload (bucket options) filePath) w0 of
              (Some error, w1) \<Rightarrow> (\<lparr>r_url = [], r_path = [], r_error = Some (message error)\<rparr>, w1)
            | (None, w1) \<Rightarrow>
                (let w2 = w1\<lparr>store := (store w1)\<lparr>storage_objects :=
                            storage_objects (store w1) @ [(bucket options, filePath)]\<rparr>\<rparr>;
                     publicUrl = public_base be @ bucket options @ ''/'' @ filePath;
                     w3 = (if userId \<noteq> []
                           then saveFileMetadata be
                                  \<lparr>m_user_id = userId, m_filename = fileName,
                                   m_original_name = file_name f, m_file_size = file_size f,
                                   m_mime_type = file_type f, m_storage_path = filePath,
                                   m_public_url = publicUrl,
                                   m_entity_type = getEntityTypeFromBucket (bucket options),
                                   m_is_public = (bucket options \<noteq> ''chat-media'')\<rparr> w2
                           else w2)
                 in (\<lparr>r_url = publicUrl, r_path = filePath, r_error = None\<rparr>, w3))))"

definition uploadAvatar ::
  "backend \<Rightarrow> string \<Rightarrow> js_file \<Rightarrow> string \<Rightarrow> world \<Rightarrow> upload_result \<times> world" where
  "uploadAvatar be unique f userId w =
     uploadFile be unique f
       \<lparr>bucket = ''avatars'', folder = userId, maxSize = Some (10 * 1024 * 1024),
        allowedTypes = Some [''image/jpeg'', ''image/png'', ''image/webp'']\<rparr> userId w"

section \<open>The join and leave button of the trip page\<close>

record toast =
  title :: string
  description :: string
  destructive :: bool

text \<open>What \<^verbatim>\<open>getTripById\<close> gives the page when it loads: the trip row with the
  participant rows of the trip (a missing list is the empty one). The page loads it once
  for a trip and a user; the join button does not load it again.\<close>

record trip_data = trip +
  participants :: "participant list"

text \<open>The state of \<^verbatim>\<open>TripDetails\<close> that \<^verbatim>\<open>handleJoinLeave\<close> reads and sets.\<close>

record page =
  user :: "uuid option"
  tripData :: "trip_data option"
  isOrganizer :: bool
  isJoined :: bool
  joinLoading :: bool
  toasts :: "toast list"

definition error_message :: "js_error \<Rightarrow> string" where
  "error_message e =
     (case e of Error m \<Rightarrow> m | Thrown pe \<Rightarrow> message pe
      | TypeError \<Rightarrow> ''Cannot read properties of null'')"

text \<open>\<^verbatim>\<open>setTripData(prev => ({ ...prev, current_participants: prev.current_participants + k }))\<close>\<close>

definition bump_participants :: "int \<Rightarrow> trip_data option \<Rightarrow> trip_data option" where
  "bump_participants k td =
     map_option (\<lambda>prev. prev\<lparr>t_current_participants := Some (js_num (t_current_participants prev) + k)\<rparr>) td"

definition error_toast :: "js_error \<Rightarrow> toast" where
  "error_toast e =
     \<lparr>title = ''Error'',
      description = (if error_message e \<noteq> [] then error_message e
                     else ''Failed to update trip participation.''),
      destructive = True\<rparr>"

definition handleJoinLeave :: "backend \<Rightarrow> uuid \<Rightarrow> page \<times> world \<Rightarrow> page \<times> world" where
  "handleJoinLeave be tripId pw =
     (case pw of (pg, w) \<Rightarrow>
        if user pg = None \<or> tripData pg = None
        then (pg\<lparr>toasts := toasts pg @
                 [\<lparr>title = ''Login Required'', description = ''Please log in to join this trip.'',
                   destructive = True\<rparr>]\<rparr>, w)
        else if isOrganizer pg
        then (pg\<lparr>toasts := toasts pg @
                 [\<lparr>title = ''Cannot Leave Trip'',
                   description = ''As the trip organizer, you cannot leave your own trip.'',
                   destructive = True\<rparr>]\<rparr>, w)
        else if isJoined pg
        then (case leaveTrip be tripId w of
                (Inr ok, w') \<Rightarrow>
                  (pg\<lparr>isJoined := False, tripData := bump_participants (- 1) (tripData pg),
                      joinLoading := False,
                      toasts := toasts pg @
                        [\<lparr>title = ''Left Trip'', description = ''You have left the trip.'',
                          destructive = False\<rparr>]\<rparr>, w')
              | (Inl e, w') \<Rightarrow>
                  (pg\<lparr>joinLoading := False, toasts := toasts pg @ [error_toast e]\<rparr>, w'))
        else (case joinTrip be tripId w of
                (Inr row, w') \<Rightarrow>
                  (pg\<lparr>isJoined := True, tripData := bump_participants 1 (tripData pg),
                      joinLoading := False,
                      toasts := toasts pg @
                        [\<lparr>title = ''Joined Trip!'',
                          description = ''You have successfully joined the trip.'',
                          destructive = False\<rparr>]\<rparr>, w')
              | (Inl e, w') \<Rightarrow>
                  (pg\<lparr>joinLoading := False, toasts := toasts pg @ [error_toast e]\<rparr>, w')))"

text \<open>\<^verbatim>\<open>displayData.currentParticipants\<close>, that is \<^verbatim>\<open>tripData.current_participants\<close>, as the
  number the join button compares with the capacity. The page does not print it.\<close>

definition currentParticipants :: "page \<Rightarrow> int" where
  "currentParticipants pg =
     (case tripData pg of None \<Rightarrow> 0 | Some t \<Rightarrow> js_num (t_current_participants t))"

text \<open>\<^verbatim>\<open>displayData.actualParticipantCount\<close>, the participant count the page prints: the
  participants other than the organizer, plus one for the organizer.\<close>

definition actualParticipantCount :: "trip_data \<Rightarrow> nat" where
  "actualParticipantCount td =
     length (filter (\<lambda>p. p_user_id p \<noteq> t_organizer_id td) (participants td)) + 1"

section \<open>Conditions on the backend, and example data\<close>

text \<open>The backend rejects the insert of a participant under label \<open>l\<close> for a violated
  check constraint (code 23514).\<close>

definition check_rejected :: "backend \<Rightarrow> db \<Rightarrow> uuid \<Rightarrow> uuid \<Rightarrow> string \<Rightarrow> bool" where
  "check_rejected be d tripId uid l =
     (case faults be d (InsertParticipant tripId uid (Some l)) of
        Some e \<Rightarrow> code e = ''23514'' | None \<Rightarrow> False)"

text \<open>The checks of \<^verbatim>\<open>joinTrip\<close> before the insert loop all pass for caller \<open>uid\<close>: a
  session, the trip found, open and below capacity, no participant record returned, the
  trip found again.\<close>

definition preconditions_pass :: "backend \<Rightarrow> uuid \<Rightarrow> uuid \<Rightarrow> db \<Rightarrow> bool" where
  "preconditions_pass be tripId uid d \<longleftrightarrow>
     faults be d AuthGetUser = None \<and> session d = Some uid \<and>
     faults be d (SelectTrip tripId) = None \<and>
     (case filter (\<lambda>t. t_id t = tripId) (group_trips d) of
        [trip] \<Rightarrow> t_status trip = ''open'' \<and>
                  \<not> js_ge (t_current_participants trip) (t_max_participants trip)
      | _ \<Rightarrow> False) \<and>
     (faults be d (SelectParticipation tripId uid) \<noteq> None \<or>
      length (participations d tripId uid) \<noteq> 1) \<and>
     faults be d (VerifyTrip tripId) = None"

definition check_violation :: pg_error where
  "check_violation =
     \<lparr>code = ''23514'', message = ''new row violates check constraint trip_participants_status_check''\<rparr>"

definition fkey_violation :: pg_error where
  "fkey_violation =
     \<lparr>code = ''23503'', message = ''insert violates foreign key constraint trip_participants_trip_id_fkey''\<rparr>"

text \<open>A backend that answers the insert of a participant under label \<open>s\<close> by \<open>v s\<close> and
  fails no other request.\<close>

definition labelled_backend :: "(string \<Rightarrow> pg_error option) \<Rightarrow> backend" where
  "labelled_backend v =
     \<lparr>faults = (\<lambda>d r. case r of InsertParticipant t u (Some s) \<Rightarrow> v s | _ \<Rightarrow> None),
      status_default = Some ''joined'', new_trip_id = (\<lambda>d. ''t2''),
      trip_status_default = ''open'', trip_count_default = Some 1, stats_default = 0,
      public_base = ''https://cdn.example/''\<rparr>"

text \<open>Alice's open trip \<^verbatim>\<open>t1\<close> with room for two, Alice enrolled; Bob is signed in.\<close>

definition demo_db :: db where
  "demo_db =
     \<lparr>session = Some ''bob'',
      group_trips = [\<lparr>t_id = ''t1'', t_organizer_id = ''alice'', t_status = ''open'',
                      t_max_participants = Some 2, t_current_participants = Some 1\<rparr>],
      trip_participants = [\<lparr>p_trip_id = ''t1'', p_user_id = ''alice'', p_status = Some ''joined''\<rparr>],
      user_followers = [], user_stats = [], post_likes = [], user_posts = [],
      user_profiles = [], trip_chat_messages = [], storage_objects = [], media_files = []\<rparr>"

definition demo_world :: world where
  "demo_world = \<lparr>store = demo_db, sent = []\<rparr>"

text \<open>The trip page as Bob sees it before joining.\<close>

definition demo_page :: page where
  "demo_page =
     \<lparr>user = Some ''bob'',
      tripData = Some \<lparr>t_id = ''t1'', t_organizer_id = ''alice'', t_status = ''open'',
                       t_max_participants = Some 2, t_current_participants = Some 1,
                       participants = [\<lparr>p_trip_id = ''t1'', p_user_id = ''alice'',
                                        p_status = Some ''joined''\<rparr>]\<rparr>,
      isOrganizer = False, isJoined = False, joinLoading = False, toasts = []\<rparr>"

text \<open>The same trip once Bob has joined and the stored count has reached the capacity.\<close>

definition full_db :: db where
  "full_db =
     demo_db\<lparr>group_trips := [\<lparr>t_id = ''t1'', t_organizer_id = ''alice'', t_status = ''open'',
                               t_max_participants = Some 2, t_current_participants = Some 2\<rparr>],
             trip_participants := [\<lparr>p_trip_id = ''t1'', p_user_id = ''alice'', p_status = Some ''joined''\<rparr>,
                                   \<lparr>p_trip_id = ''t1'', p_user_id = ''bob'', p_status = Some ''joined''\<rparr>]\<rparr>"

definition full_world :: world where
  "full_world = \<lparr>store = full_db, sent = []\<rparr>"

text \<open>The demo trip with Bob's record stored and the stored count as it was.\<close>

definition joined_world :: world where
  "joined_world =
     \<lparr>store = demo_db\<lparr>trip_participants :=
                 [\<lparr>p_trip_id = ''t1'', p_user_id = ''alice'', p_status = Some ''joined''\<rparr>,
                  \<lparr>p_trip_id = ''t1'', p_user_id = ''bob'', p_status = Some ''joined''\<rparr>]\<rparr>,
      sent = []\<rparr>"

text \<open>Alice, the organizer, signed in and looking at her own trip, Bob enrolled.\<close>

definition organizer_world :: world where
  "organizer_world = \<lparr>store = (store joined_world)\<lparr>session := Some ''alice''\<rparr>, sent = []\<rparr>"

definition organizer_page :: page where
  "organizer_page =
     \<lparr>user = Some ''alice'',
      tripData = Some \<lparr>t_id = ''t1'', t_organizer_id = ''alice'', t_status = ''open'',
                       t_max_participants = Some 2, t_current_participants = Some 2,
                       participants = [\<lparr>p_trip_id = ''t1'', p_user_id = ''alice'',
                                        p_status = Some ''joined''\<rparr>,
                                       \<lparr>p_trip_id = ''t1'', p_user_id = ''bob'',
                                        p_status = Some ''joined''\<rparr>]\<rparr>,
      isOrganizer = True, isJoined = True, joinLoading = False, toasts = []\<rparr>"

text \<open>Three posts, the second private; only Alice has a profile.\<close>

definition feed_world :: world where
  "feed_world =
     \<lparr>store = demo_db\<lparr>user_posts :=
                 [\<lparr>post_id = ''p1'', post_user_id = ''bob'', post_is_public = True, post_created_at = 100\<rparr>,
                  \<lparr>post_id = ''p2'', post_user_id = ''alice'', post_is_public = False, post_created_at = 200\<rparr>,
                  \<lparr>post_id = ''p3'', post_user_id = ''alice'', post_is_public = True, post_created_at = 300\<rparr>],
               user_profiles :=
                 [\<lparr>pr_user_id = ''alice'', pr_username = ''alice'', pr_display_name = ''Alice'',
                   pr_avatar_url = None\<rparr>]\<rparr>,
      sent = []\<rparr>"




text \<open>A request that does not get through.\<close>

definition network_error :: pg_error where
  "network_error = \<lparr>code = [], message = ''TypeError: Failed to fetch''\<rparr>"

text \<open>The backend refuses a write under its row-level security.\<close>

definition policy_violation :: pg_error where
  "policy_violation =
     \<lparr>code = ''42501'', message = ''new row violates row-level security policy''\<rparr>"

text \<open>A backend that answers request \<open>r\<close> by \<open>f r\<close>, whatever the store.\<close>

definition failing_backend :: "(request \<Rightarrow> pg_error option) \<Rightarrow> backend" where
  "failing_backend f = (labelled_backend (\<lambda>s. None))\<lparr>faults := (\<lambda>d. f)\<rparr>"

text \<open>The backends of the counterexamples: each fails one request and answers the rest.\<close>

definition lookup_down :: backend where
  "lookup_down =
     failing_backend (\<lambda>r. if r = SelectParticipation ''t1'' ''bob'' then Some network_error else None)"



definition enrol_refused :: backend where
  "enrol_refused =
     failing_backend (\<lambda>r. if r = InsertParticipant ''t2'' ''bob'' None then Some policy_violation else None)"

text \<open>The trip closed and full; Carol is signed in.\<close>

definition closed_full_world :: world where
  "closed_full_world =
     \<lparr>store = full_db\<lparr>session := Some ''carol'',
                        group_trips := [\<lparr>t_id = ''t1'', t_organizer_id = ''alice'', t_status = ''closed'',
                                         t_max_participants = Some 2, t_current_participants = Some 2\<rparr>]\<rparr>,
      sent = []\<rparr>"


section \<open>The status negotiation of joinTrip\<close>

lemma tryStatuses_rejected:
  assumes "\<forall>x\<in>set pre. check_rejected be (store w) tripId uid x"
  shows "tryStatuses be tripId uid (pre @ rest) e0 w =
         tryStatuses be tripId uid rest
           (if pre = [] then e0 else faults be (store w) (InsertParticipant tripId uid (Some (last pre))))
           (w\<lparr>sent := sent w @ map (\<lambda>l. InsertParticipant tripId uid (Some l)) pre\<rparr>)"
  using assms
proof (induction pre arbitrary: e0 w)
  case Nil
  then show ?case by simp
next
  case (Cons a pre)
  then show ?case
    by (auto simp: check_rejected_def insert_participant_def send_def split: option.splits)
qed

lemma tryStatuses_all_rejected:
  assumes "\<forall>x\<in>set ls. check_rejected be (store w) tripId uid x" "ls \<noteq> []"
  shows "tryStatuses be tripId uid ls e0 w =
           (None, faults be (store w) (InsertParticipant tripId uid (Some (last ls))),
            w\<lparr>sent := sent w @ map (\<lambda>l. InsertParticipant tripId uid (Some l)) ls\<rparr>)"
  using tryStatuses_rejected [OF assms(1), of "[]" e0] assms(2) by simp

lemma joinTrip_reaches_loop:
  assumes "preconditions_pass be tripId uid (store w)"
  shows "joinTrip be tripId w =
     (case tryStatuses be tripId uid statusValues None
         (w\<lparr>sent := sent w @ [AuthGetUser, SelectTrip tripId, SelectParticipation tripId uid, VerifyTrip tripId]\<rparr>) of
        (insertData, insertError, w5) \<Rightarrow> (joinOutcome tripId insertData insertError, w5))"
  using assms
  by (auto simp: preconditions_pass_def joinTrip_def getUser_def send_def select_trip_def
      select_participation_def single_def split: list.splits option.splits sum.splits prod.splits)

text \<open>The loop, when the labels before \<open>l\<close> are rejected for the check constraint and
  the insert under \<open>l\<close> is answered otherwise.\<close>

lemma joinTrip_loop_stops:
  assumes p: "preconditions_pass be tripId uid (store w)"
    and s: "statusValues = pre @ l # post"
    and r: "\<forall>x\<in>set pre. check_rejected be (store w) tripId uid x"
  shows "joinTrip be tripId w =
     (case tryStatuses be tripId uid (l # post)
         (if pre = [] then None else faults be (store w) (InsertParticipant tripId uid (Some (last pre))))
         (w\<lparr>sent := sent w @ [AuthGetUser, SelectTrip tripId, SelectParticipation tripId uid, VerifyTrip tripId]
                 @ map (\<lambda>x. InsertParticipant tripId uid (Some x)) pre\<rparr>) of
        (insertData, insertError, w5) \<Rightarrow> (joinOutcome tripId insertData insertError, w5))"
proof -
  let ?w4 = "w\<lparr>sent := sent w @ [AuthGetUser, SelectTrip tripId, SelectParticipation tripId uid, VerifyTrip tripId]\<rparr>"
  have "\<forall>x\<in>set pre. check_rejected be (store ?w4) tripId uid x" using r by simp
  from tryStatuses_rejected [OF this, of "l # post" None]
  show ?thesis by (simp add: joinTrip_reaches_loop [OF p] s del: tryStatuses.simps)
qed

lemma joinTrip_accepted:
  assumes p: "preconditions_pass be tripId uid (store w)"
    and s: "statusValues = pre @ l # post"
    and r: "\<forall>x\<in>set pre. check_rejected be (store w) tripId uid x"
    and a: "faults be (store w) (InsertParticipant tripId uid (Some l)) = None"
  shows "joinTrip be tripId w =
     (Inr \<lparr>p_trip_id = tripId, p_user_id = uid, p_status = Some l\<rparr>,
      \<lparr>store = (store w)\<lparr>trip_participants := trip_participants (store w) @
                 [\<lparr>p_trip_id = tripId, p_user_id = uid, p_status = Some l\<rparr>]\<rparr>,
       sent = sent w @ [AuthGetUser, SelectTrip tripId, SelectParticipation tripId uid, VerifyTrip tripId]
                 @ map (\<lambda>x. InsertParticipant tripId uid (Some x)) (pre @ [l])\<rparr>)"
  using a
  by (simp add: joinTrip_loop_stops [OF p s r] insert_participant_def send_def joinOutcome_def Let_def)

lemma joinTrip_other_failure:
  assumes p: "preconditions_pass be tripId uid (store w)"
    and s: "statusValues = pre @ l # post"
    and r: "\<forall>x\<in>set pre. check_rejected be (store w) tripId uid x"
    and a: "faults be (store w) (InsertParticipant tripId uid (Some l)) = Some e"
    and c: "code e \<noteq> ''23514''"
  shows "joinTrip be tripId w =
     (Inl (if code e = ''23503'' \<and> js_includes (message e) ''trip_participants_trip_id_fkey''
           then TripMissing tripId else Thrown e),
      w\<lparr>sent := sent w @ [AuthGetUser, SelectTrip tripId, SelectParticipation tripId uid, VerifyTrip tripId]
                 @ map (\<lambda>x. InsertParticipant tripId uid (Some x)) (pre @ [l])\<rparr>)"
  using a c
  by (simp add: joinTrip_loop_stops [OF p s r] insert_participant_def send_def joinOutcome_def)

lemma joinTrip_all_rejected:
  assumes p: "preconditions_pass be tripId uid (store w)"
    and r: "\<forall>x\<in>set statusValues. check_rejected be (store w) tripId uid x"
  shows "joinTrip be tripId w =
     (Inl StatusValidation,
      w\<lparr>sent := sent w @ [AuthGetUser, SelectTrip tripId, SelectParticipation tripId uid, VerifyTrip tripId]
                 @ map (\<lambda>x. InsertParticipant tripId uid (Some x)) statusValues\<rparr>)"
proof -
  let ?w4 = "w\<lparr>sent := sent w @ [AuthGetUser, SelectTrip tripId, SelectParticipation tripId uid, VerifyTrip tripId]\<rparr>"
  have ne: "statusValues \<noteq> []" by (simp add: statusValues_def)
  have "\<forall>x\<in>set statusValues. check_rejected be (store ?w4) tripId uid x" using r by simp
  note t = tryStatuses_all_rejected [OF this ne, of None]
  have "check_rejected be (store w) tripId uid (last statusValues)"
    using r ne by simp
  then obtain e where "faults be (store w) (InsertParticipant tripId uid (Some (last statusValues))) = Some e"
    "code e = ''23514''"
    by (auto simp: check_rejected_def split: option.splits)
  then show ?thesis
    by (simp add: joinTrip_reaches_loop [OF p] t joinOutcome_def)
qed

text \<open>
  Claim C1. When the checks of \<^verbatim>\<open>joinTrip\<close> before the insert pass, the inserts are sent
  under the labels of \<open>statusValues\<close> in their order, and stop at the first label whose
  insert is not rejected for the check constraint (code 23514). The theorem has the three
  cases. With the labels \<open>pre\<close> before \<open>l\<close> all rejected for the check constraint: if the
  backend accepts the insert under \<open>l\<close>, the call returns the row with status \<open>l\<close>, the
  row is stored, and the inserts sent are those of \<open>pre\<close> and \<open>l\<close>, none after; if the
  backend fails the insert under \<open>l\<close> with another error \<open>e\<close>, the call throws \<open>e\<close> (as
  the message of the missing trip when \<open>e\<close> is the foreign-key violation of the trip
  reference), again with no insert sent after \<open>l\<close>, and nothing is stored. If every label
  is rejected for the check constraint, all four inserts are sent and the call throws the
  status-validation error.
\<close>

theorem joinTrip_status_negotiation:
  assumes "preconditions_pass be tripId uid (store w)"
  shows
    "(statusValues = pre @ l # post \<and> (\<forall>x\<in>set pre. check_rejected be (store w) tripId uid x) \<and>
      faults be (store w) (InsertParticipant tripId uid (Some l)) = None \<longrightarrow>
        fst (joinTrip be tripId w) = Inr \<lparr>p_trip_id = tripId, p_user_id = uid, p_status = Some l\<rparr> \<and>
        sent (snd (joinTrip be tripId w)) =
          sent w @ [AuthGetUser, SelectTrip tripId, SelectParticipation tripId uid, VerifyTrip tripId]
                 @ map (\<lambda>x. InsertParticipant tripId uid (Some x)) (pre @ [l]) \<and>
        trip_participants (store (snd (joinTrip be tripId w))) =
          trip_participants (store w) @ [\<lparr>p_trip_id = tripId, p_user_id = uid, p_status = Some l\<rparr>]) \<and>
     (statusValues = pre @ l # post \<and> (\<forall>x\<in>set pre. check_rejected be (store w) tripId uid x) \<and>
      faults be (store w) (InsertParticipant tripId uid (Some l)) = Some e \<and> code e \<noteq> ''23514'' \<longrightarrow>
        fst (joinTrip be tripId w) =
          Inl (if code e = ''23503'' \<and> js_includes (message e) ''trip_participants_trip_id_fkey''
               then TripMissing tripId else Thrown e) \<and>
        sent (snd (joinTrip be tripId w)) =
          sent w @ [AuthGetUser, SelectTrip tripId, SelectParticipation tripId uid, VerifyTrip tripId]
                 @ map (\<lambda>x. InsertParticipant tripId uid (Some x)) (pre @ [l]) \<and>
        store (snd (joinTrip be tripId w)) = store w) \<and>
     ((\<forall>x\<in>set statusValues. check_rejected be (store w) tripId uid x) \<longrightarrow>
        fst (joinTrip be tripId w) = Inl StatusValidation \<and>
        sent (snd (joinTrip be tripId w)) =
          sent w @ [AuthGetUser, SelectTrip tripId, SelectParticipation tripId uid, VerifyTrip tripId]
                 @ map (\<lambda>x. InsertParticipant tripId uid (Some x)) statusValues \<and>
        store (snd (joinTrip be tripId w)) = store w)"
  using joinTrip_accepted [OF assms, of pre l post] joinTrip_other_failure [OF assms, of pre l post e]
    joinTrip_all_rejected [OF assms]
  by simp

lemma demo_preconditions:
  "preconditions_pass (labelled_backend v) ''t1'' ''bob'' (store demo_world)"
  by (simp add: preconditions_pass_def labelled_backend_def demo_world_def demo_db_def
      participations_def js_ge_def js_num_def)

theorem joinTrip_status_negotiation_witness:
  "fst (joinTrip (labelled_backend (\<lambda>s. if s = ''joined'' then Some check_violation else None))
         ''t1'' demo_world) =
     Inr \<lparr>p_trip_id = ''t1'', p_user_id = ''bob'', p_status = Some ''confirmed''\<rparr> \<and>
   sent (snd (joinTrip (labelled_backend (\<lambda>s. if s = ''joined'' then Some check_violation else None))
         ''t1'' demo_world)) =
     [AuthGetUser, SelectTrip ''t1'', SelectParticipation ''t1'' ''bob'', VerifyTrip ''t1'',
      InsertParticipant ''t1'' ''bob'' (Some ''joined''),
      InsertParticipant ''t1'' ''bob'' (Some ''confirmed'')] \<and>
   fst (joinTrip (labelled_backend (\<lambda>s. if s = ''joined'' then Some check_violation else Some fkey_violation))
         ''t1'' demo_world) = Inl (TripMissing ''t1'') \<and>
   sent (snd (joinTrip (labelled_backend (\<lambda>s. if s = ''joined'' then Some check_violation else Some fkey_violation))
         ''t1'' demo_world)) =
     [AuthGetUser, SelectTrip ''t1'', SelectParticipation ''t1'' ''bob'', VerifyTrip ''t1'',
      InsertParticipant ''t1'' ''bob'' (Some ''joined''),
      InsertParticipant ''t1'' ''bob'' (Some ''confirmed'')] \<and>
   fst (joinTrip (labelled_backend (\<lambda>s. Some check_violation)) ''t1'' demo_world) = Inl StatusValidation \<and>
   sent (snd (joinTrip (labelled_backend (\<lambda>s. Some check_violation)) ''t1'' demo_world)) =
     [AuthGetUser, SelectTrip ''t1'', SelectParticipation ''t1'' ''bob'', VerifyTrip ''t1'',
      InsertParticipant ''t1'' ''bob'' (Some ''joined''),
      InsertParticipant ''t1'' ''bob'' (Some ''confirmed''),
      InsertParticipant ''t1'' ''bob'' (Some ''accepted''),
      InsertParticipant ''t1'' ''bob'' (Some ''active'')]"
proof -
  let ?v1 = "\<lambda>s. if s = ''joined'' then Some check_violation else None"
  let ?v2 = "\<lambda>s. if s = ''joined'' then Some check_violation else Some fkey_violation"
  let ?v3 = "\<lambda>s::string. Some check_violation"
  show ?thesis
    using joinTrip_status_negotiation [OF demo_preconditions [of ?v1], where pre = "[''joined'']"
          and l = "''confirmed''" and post = "[''accepted'', ''active'']"]
      joinTrip_status_negotiation [OF demo_preconditions [of ?v2], where pre = "[''joined'']"
          and l = "''confirmed''" and post = "[''accepted'', ''active'']" and e = fkey_violation]
      joinTrip_status_negotiation [OF demo_preconditions [of ?v3]]
    by (simp add: statusValues_def check_rejected_def labelled_backend_def check_violation_def
        fkey_violation_def demo_world_def)
qed

section \<open>Capacity\<close>

lemma labelled_faults:
  "faults (labelled_backend v) d r = (case r of InsertParticipant t u (Some s) \<Rightarrow> v s | _ \<Rightarrow> None)"
  by (simp add: labelled_backend_def)

lemma failing_faults: "faults (failing_backend f) d r = f r"
  by (simp add: failing_backend_def)

lemma failing_defaults:
  "status_default (failing_backend f) = Some ''joined''"
  "new_trip_id (failing_backend f) d = ''t2''"
  "trip_status_default (failing_backend f) = ''open''"
  "trip_count_default (failing_backend f) = Some 1"
  "stats_default (failing_backend f) = 0"
  by (simp_all add: failing_backend_def labelled_backend_def)

lemma joined_world_fields:
  "session (store joined_world) = Some ''bob''"
  "group_trips (store joined_world) =
     [\<lparr>t_id = ''t1'', t_organizer_id = ''alice'', t_status = ''open'',
       t_max_participants = Some 2, t_current_participants = Some 1\<rparr>]"
  "trip_participants (store joined_world) =
     [\<lparr>p_trip_id = ''t1'', p_user_id = ''alice'', p_status = Some ''joined''\<rparr>,
      \<lparr>p_trip_id = ''t1'', p_user_id = ''bob'', p_status = Some ''joined''\<rparr>]"
  "sent joined_world = []"
  by (simp_all add: joined_world_def demo_db_def)

lemma joinTrip_after_failed_lookup:
  "joinTrip lookup_down ''t1'' joined_world =
     (Inr \<lparr>p_trip_id = ''t1'', p_user_id = ''bob'', p_status = Some ''joined''\<rparr>,
      \<lparr>store = (store joined_world)\<lparr>trip_participants := trip_participants (store joined_world) @
                 [\<lparr>p_trip_id = ''t1'', p_user_id = ''bob'', p_status = Some ''joined''\<rparr>]\<rparr>,
       sent = [AuthGetUser, SelectTrip ''t1'', SelectParticipation ''t1'' ''bob'', VerifyTrip ''t1'',
               InsertParticipant ''t1'' ''bob'' (Some ''joined'')]\<rparr>)"
proof -
  have p: "preconditions_pass lookup_down ''t1'' ''bob'' (store joined_world)"
    by (simp add: preconditions_pass_def lookup_down_def failing_faults joined_world_def demo_db_def
        js_ge_def js_num_def)
  have s: "sent joined_world = []" by (simp add: joined_world_def)
  show ?thesis
    using joinTrip_accepted [OF p, where pre = "[]" and l = "''joined''"
        and post = "[''confirmed'', ''accepted'', ''active'']"]
    by (simp add: statusValues_def lookup_down_def failing_faults s)
qed

lemma joinTrip_full:
  assumes "faults be (store w) AuthGetUser = None" "session (store w) = Some uid"
    "faults be (store w) (SelectTrip tripId) = None"
    "filter (\<lambda>t. t_id t = tripId) (group_trips (store w)) = [trip]"
    "t_status trip = ''open''"
    "js_ge (t_current_participants trip) (t_max_participants trip)"
  shows "joinTrip be tripId w = (Inl Full, w\<lparr>sent := sent w @ [AuthGetUser, SelectTrip tripId]\<rparr>)"
  using assms
  by (simp add: joinTrip_def getUser_def send_def select_trip_def single_def)

lemma handleJoinLeave_join:
  assumes "user pg \<noteq> None" "tripData pg \<noteq> None" "\<not> isOrganizer pg" "\<not> isJoined pg"
  shows "handleJoinLeave be tripId (pg, w) =
     (case joinTrip be tripId w of
        (Inr row, w') \<Rightarrow>
          (pg\<lparr>isJoined := True, tripData := bump_participants 1 (tripData pg), joinLoading := False,
              toasts := toasts pg @
                [\<lparr>title = ''Joined Trip!'', description = ''You have successfully joined the trip.'',
                  destructive = False\<rparr>]\<rparr>, w')
      | (Inl e, w') \<Rightarrow> (pg\<lparr>joinLoading := False, toasts := toasts pg @ [error_toast e]\<rparr>, w'))"
  using assms by (auto simp: handleJoinLeave_def)

lemma currentParticipants_bump:
  "tripData pg \<noteq> None \<Longrightarrow>
   currentParticipants (pg\<lparr>isJoined := j, tripData := bump_participants k (tripData pg), joinLoading := b, toasts := ts\<rparr>)
     = currentParticipants pg + k"
  by (auto simp: currentParticipants_def bump_participants_def js_num_def)

text \<open>
  Claim C2, as amended. Take a caller with a session (the session read is answered) and a
  trip that the lookup finds (the request is answered and exactly one row has the
  identifier) and whose status is open. When the trip's stored \<^verbatim>\<open>current_participants\<close>
  has reached \<^verbatim>\<open>max_participants\<close> (a missing number counts as 0, as in JavaScript's
  comparison), \<^verbatim>\<open>joinTrip\<close> throws the Full error and stores nothing, and the join button
  of the trip page, pressed by a signed-in visitor with the trip data loaded who is not
  the organizer and has not joined, leaves \<^verbatim>\<open>tripData.current_participants\<close> as it was.
  When the stored count is below the capacity (one below in particular), the caller has
  no participant record of the trip, the second lookup of the trip is answered, and the
  backend accepts the insert under a label \<open>l\<close> of the list after rejecting the labels
  before it for the check constraint, \<^verbatim>\<open>joinTrip\<close> returns the new record, exactly that
  record is added, and the join button, pressed by such a visitor, raises
  \<^verbatim>\<open>tripData.current_participants\<close> of the page by exactly one.

  As stated for every trip the claim fails (the counterexample below): joining a closed
  trip at its capacity fails with NotOpen, not Full; joining one below the capacity fails
  with AlreadyJoined for a caller who has a record; and the count the trip page prints,
  \<^verbatim>\<open>actualParticipantCount\<close>, is computed from the participant list loaded with the page
  and is the same after a successful join.
\<close>

theorem joinTrip_capacity:
  assumes "faults be (store w) AuthGetUser = None" and "session (store w) = Some uid"
    and "faults be (store w) (SelectTrip tripId) = None"
    and "filter (\<lambda>t. t_id t = tripId) (group_trips (store w)) = [trip]"
    and "t_status trip = ''open''"
  shows
    "(js_num (t_current_participants trip) \<ge> js_num (t_max_participants trip) \<longrightarrow>
        fst (joinTrip be tripId w) = Inl Full \<and>
        store (snd (joinTrip be tripId w)) = store w \<and>
        (user pg \<noteq> None \<and> tripData pg \<noteq> None \<and> \<not> isOrganizer pg \<and> \<not> isJoined pg \<longrightarrow>
           currentParticipants (fst (handleJoinLeave be tripId (pg, w))) = currentParticipants pg)) \<and>
     (js_num (t_current_participants trip) < js_num (t_max_participants trip) \<and>
      participations (store w) tripId uid = [] \<and>
      faults be (store w) (VerifyTrip tripId) = None \<and>
      statusValues = pre @ l # post \<and>
      (\<forall>x\<in>set pre. check_rejected be (store w) tripId uid x) \<and>
      faults be (store w) (InsertParticipant tripId uid (Some l)) = None \<longrightarrow>
        fst (joinTrip be tripId w) = Inr \<lparr>p_trip_id = tripId, p_user_id = uid, p_status = Some l\<rparr> \<and>
        trip_participants (store (snd (joinTrip be tripId w))) =
          trip_participants (store w) @ [\<lparr>p_trip_id = tripId, p_user_id = uid, p_status = Some l\<rparr>] \<and>
        (user pg \<noteq> None \<and> tripData pg \<noteq> None \<and> \<not> isOrganizer pg \<and> \<not> isJoined pg \<longrightarrow>
           currentParticipants (fst (handleJoinLeave be tripId (pg, w))) = currentParticipants pg + 1))"
proof (intro conjI impI)
  assume full: "js_num (t_current_participants trip) \<ge> js_num (t_max_participants trip)"
  have j: "joinTrip be tripId w = (Inl Full, w\<lparr>sent := sent w @ [AuthGetUser, SelectTrip tripId]\<rparr>)"
    using assms full by (intro joinTrip_full) (simp_all add: js_ge_def)
  show "fst (joinTrip be tripId w) = Inl Full" by (simp add: j)
  show "store (snd (joinTrip be tripId w)) = store w" by (simp add: j)
  assume pg: "user pg \<noteq> None \<and> tripData pg \<noteq> None \<and> \<not> isOrganizer pg \<and> \<not> isJoined pg"
  then have "handleJoinLeave be tripId (pg, w) =
     (pg\<lparr>joinLoading := False, toasts := toasts pg @ [error_toast Full]\<rparr>,
      w\<lparr>sent := sent w @ [AuthGetUser, SelectTrip tripId]\<rparr>)"
    by (simp add: handleJoinLeave_join j)
  then show "currentParticipants (fst (handleJoinLeave be tripId (pg, w))) = currentParticipants pg"
    by (simp add: currentParticipants_def)
next
  assume h: "js_num (t_current_participants trip) < js_num (t_max_participants trip) \<and>
      participations (store w) tripId uid = [] \<and>
      faults be (store w) (VerifyTrip tripId) = None \<and>
      statusValues = pre @ l # post \<and>
      (\<forall>x\<in>set pre. check_rejected be (store w) tripId uid x) \<and>
      faults be (store w) (InsertParticipant tripId uid (Some l)) = None"
  have p: "preconditions_pass be tripId uid (store w)"
    using assms h by (simp add: preconditions_pass_def js_ge_def)
  have j: "joinTrip be tripId w =
     (Inr \<lparr>p_trip_id = tripId, p_user_id = uid, p_status = Some l\<rparr>,
      \<lparr>store = (store w)\<lparr>trip_participants := trip_participants (store w) @
                 [\<lparr>p_trip_id = tripId, p_user_id = uid, p_status = Some l\<rparr>]\<rparr>,
       sent = sent w @ [AuthGetUser, SelectTrip tripId, SelectParticipation tripId uid, VerifyTrip tripId]
                 @ map (\<lambda>x. InsertParticipant tripId uid (Some x)) (pre @ [l])\<rparr>)"
    using h by (intro joinTrip_accepted [OF p, of pre l post]) simp_all
  show "fst (joinTrip be tripId w) = Inr \<lparr>p_trip_id = tripId, p_user_id = uid, p_status = Some l\<rparr>"
    by (simp add: j)
  show "trip_participants (store (snd (joinTrip be tripId w))) =
          trip_participants (store w) @ [\<lparr>p_trip_id = tripId, p_user_id = uid, p_status = Some l\<rparr>]"
    by (simp add: j)
  assume pg: "user pg \<noteq> None \<and> tripData pg \<noteq> None \<and> \<not> isOrganizer pg \<and> \<not> isJoined pg"
  then show "currentParticipants (fst (handleJoinLeave be tripId (pg, w))) = currentParticipants pg + 1"
    by (simp add: handleJoinLeave_join j currentParticipants_bump)
qed

theorem joinTrip_capacity_witness:
  "fst (joinTrip (labelled_backend (\<lambda>s. None)) ''t1'' \<lparr>store = full_db\<lparr>session := Some ''carol''\<rparr>, sent = []\<rparr>)
     = Inl Full \<and>
   currentParticipants (fst (handleJoinLeave (labelled_backend (\<lambda>s. None)) ''t1''
       (demo_page\<lparr>user := Some ''carol''\<rparr>, \<lparr>store = full_db\<lparr>session := Some ''carol''\<rparr>, sent = []\<rparr>))) = 1 \<and>
   fst (joinTrip (labelled_backend (\<lambda>s. None)) ''t1'' demo_world)
     = Inr \<lparr>p_trip_id = ''t1'', p_user_id = ''bob'', p_status = Some ''joined''\<rparr> \<and>
   currentParticipants (fst (handleJoinLeave (labelled_backend (\<lambda>s. None)) ''t1'' (demo_page, demo_world))) = 2"
proof -
  let ?be = "labelled_backend (\<lambda>s. None)"
  let ?fw = "\<lparr>store = full_db\<lparr>session := Some ''carol''\<rparr>, sent = []\<rparr>"
  let ?t2 = "\<lparr>t_id = ''t1'', t_organizer_id = ''alice'', t_status = ''open'',
              t_max_participants = Some 2, t_current_participants = Some 2\<rparr>"
  let ?t1 = "\<lparr>t_id = ''t1'', t_organizer_id = ''alice'', t_status = ''open'',
              t_max_participants = Some 2, t_current_participants = Some (1::int)\<rparr>"
  show ?thesis
    using joinTrip_capacity [where be = ?be and w = ?fw and uid = "''carol''" and tripId = "''t1''"
          and trip = ?t2 and pg = "demo_page\<lparr>user := Some ''carol''\<rparr>"]
      joinTrip_capacity [where be = ?be and w = demo_world and uid = "''bob''" and tripId = "''t1''"
          and trip = ?t1 and pg = demo_page and pre = "[]" and l = "''joined''"
          and post = "[''confirmed'', ''accepted'', ''active'']"]
    by (simp add: currentParticipants_def labelled_faults full_db_def demo_db_def demo_world_def
        demo_page_def js_num_def statusValues_def participations_def)
qed

theorem joinTrip_capacity_counterexample:
  "group_trips (store closed_full_world) =
     [\<lparr>t_id = ''t1'', t_organizer_id = ''alice'', t_status = ''closed'',
       t_max_participants = Some 2, t_current_participants = Some 2\<rparr>] \<and>
   fst (joinTrip (labelled_backend (\<lambda>s. None)) ''t1'' closed_full_world) = Inl NotOpen \<and>
   fst (joinTrip (labelled_backend (\<lambda>s. None)) ''t1'' closed_full_world) \<noteq> Inl Full \<and>
   group_trips (store joined_world) =
     [\<lparr>t_id = ''t1'', t_organizer_id = ''alice'', t_status = ''open'',
       t_max_participants = Some 2, t_current_participants = Some 1\<rparr>] \<and>
   fst (joinTrip (labelled_backend (\<lambda>s. None)) ''t1'' joined_world) = Inl AlreadyJoined \<and>
   fst (joinTrip (labelled_backend (\<lambda>s. None)) ''t1'' demo_world) =
     Inr \<lparr>p_trip_id = ''t1'', p_user_id = ''bob'', p_status = Some ''joined''\<rparr> \<and>
   isJoined (fst (handleJoinLeave (labelled_backend (\<lambda>s. None)) ''t1'' (demo_page, demo_world))) \<and>
   map_option actualParticipantCount (tripData demo_page) = Some 1 \<and>
   map_option actualParticipantCount
     (tripData (fst (handleJoinLeave (labelled_backend (\<lambda>s. None)) ''t1'' (demo_page, demo_world)))) = Some 1"
proof -
  let ?be = "labelled_backend (\<lambda>s. None)"
  have a: "fst (joinTrip ?be ''t1'' closed_full_world) = Inl NotOpen"
    by (simp add: joinTrip_def getUser_def send_def select_trip_def single_def labelled_faults
        closed_full_world_def full_db_def demo_db_def)
  have b: "NotOpen \<noteq> Full" by (simp add: NotOpen_def Full_def)
  have c: "fst (joinTrip ?be ''t1'' joined_world) = Inl AlreadyJoined"
    by (simp add: joinTrip_def getUser_def send_def select_trip_def select_participation_def
        single_def labelled_faults joined_world_def demo_db_def participations_def js_ge_def js_num_def)
  have j: "joinTrip ?be ''t1'' demo_world =
     (Inr \<lparr>p_trip_id = ''t1'', p_user_id = ''bob'', p_status = Some ''joined''\<rparr>,
      \<lparr>store = (store demo_world)\<lparr>trip_participants := trip_participants (store demo_world) @
                 [\<lparr>p_trip_id = ''t1'', p_user_id = ''bob'', p_status = Some ''joined''\<rparr>]\<rparr>,
       sent = sent demo_world @
              [AuthGetUser, SelectTrip ''t1'', SelectParticipation ''t1'' ''bob'', VerifyTrip ''t1'',
               InsertParticipant ''t1'' ''bob'' (Some ''joined'')]\<rparr>)"
    using joinTrip_accepted [OF demo_preconditions [of "\<lambda>s. None"], where pre = "[]" and l = "''joined''"
        and post = "[''confirmed'', ''accepted'', ''active'']"]
    by (simp add: statusValues_def labelled_faults)
  have pg: "user demo_page \<noteq> None" "tripData demo_page \<noteq> None" "\<not> isOrganizer demo_page"
    "\<not> isJoined demo_page"
    by (simp_all add: demo_page_def)
  have h: "fst (handleJoinLeave ?be ''t1'' (demo_page, demo_world)) =
     demo_page\<lparr>isJoined := True, tripData := bump_participants 1 (tripData demo_page),
       joinLoading := False,
       toasts := toasts demo_page @
         [\<lparr>title = ''Joined Trip!'', description = ''You have successfully joined the trip.'',
           destructive = False\<rparr>]\<rparr>"
    by (simp add: handleJoinLeave_join [OF pg] j)
  have n: "map_option actualParticipantCount (tripData demo_page) = Some 1"
    "map_option actualParticipantCount (bump_participants 1 (tripData demo_page)) = Some 1"
    by (simp_all add: demo_page_def bump_participants_def actualParticipantCount_def)
  have g: "group_trips (store closed_full_world) =
     [\<lparr>t_id = ''t1'', t_organizer_id = ''alice'', t_status = ''closed'',
       t_max_participants = Some 2, t_current_participants = Some 2\<rparr>]"
    "group_trips (store joined_world) =
     [\<lparr>t_id = ''t1'', t_organizer_id = ''alice'', t_status = ''open'',
       t_max_participants = Some 2, t_current_participants = Some 1\<rparr>]"
    by (simp_all add: closed_full_world_def joined_world_def full_db_def demo_db_def)
  show ?thesis by (simp add: a b c j h n g)
qed

section \<open>Joining twice\<close>

lemma joinTrip_before_insert:
  assumes "faults be (store w) AuthGetUser = None" and "session (store w) = Some uid"
    and "faults be (store w) (SelectParticipation tripId uid) = None"
    and "participations (store w) tripId uid = [row]"
  shows "fst (joinTrip be tripId w) =
           Inl (case fst (select_trip be (SelectTrip tripId) tripId
                            (w\<lparr>sent := sent w @ [AuthGetUser]\<rparr>)) of
                  Inl tripError \<Rightarrow> NotFound tripId
                | Inr trip \<Rightarrow>
                    if t_status trip \<noteq> ''open'' then NotOpen
                    else if js_ge (t_current_participants trip) (t_max_participants trip) then Full
                    else AlreadyJoined)"
    and "store (snd (joinTrip be tripId w)) = store w"
  using assms
  by (auto simp: joinTrip_def getUser_def send_def select_trip_def select_participation_def
      single_def split: option.splits sum.splits list.splits)

text \<open>
  Claim C4, as amended. Take a caller with a session (the session read is answered) whose
  participant record of the trip the lookup of \<^verbatim>\<open>joinTrip\<close> returns: the lookup is
  answered and exactly one record of the pair (trip, caller) is stored. Then a further
  \<^verbatim>\<open>joinTrip\<close> call fails and leaves the participant table as it was, so no second
  record is created. The checks run in the order of the source: the error is NotFound
  when the lookup of the trip fails or does not find exactly one row, NotOpen when the
  trip is found and not open, Full when it is found, open and its stored count has
  reached the capacity, and AlreadyJoined when it is found, open and its stored count is
  below the capacity.

  As stated for every trip and every participant the claim fails (the counterexample
  below): Bob, enrolled in the full trip, gets Full; and when the participation lookup
  fails, \<^verbatim>\<open>joinTrip\<close> goes on to the insert, as its comment says, and a backend that
  accepts it stores a second record of the pair.
\<close>

theorem joinTrip_already_participant:
  assumes "faults be (store w) AuthGetUser = None" and "session (store w) = Some uid"
    and "faults be (store w) (SelectParticipation tripId uid) = None"
    and "participations (store w) tripId uid = [row]"
  shows
    "isl (fst (joinTrip be tripId w)) \<and>
     trip_participants (store (snd (joinTrip be tripId w))) = trip_participants (store w) \<and>
     (faults be (store w) (SelectTrip tripId) = None \<and>
      filter (\<lambda>t. t_id t = tripId) (group_trips (store w)) = [trip] \<and>
      t_status trip = ''open'' \<and>
      js_num (t_current_participants trip) < js_num (t_max_participants trip) \<longrightarrow>
        fst (joinTrip be tripId w) = Inl AlreadyJoined) \<and>
     (faults be (store w) (SelectTrip tripId) = None \<and>
      filter (\<lambda>t. t_id t = tripId) (group_trips (store w)) = [trip] \<and>
      t_status trip = ''open'' \<and>
      js_num (t_current_participants trip) \<ge> js_num (t_max_participants trip) \<longrightarrow>
        fst (joinTrip be tripId w) = Inl Full) \<and>
     (faults be (store w) (SelectTrip tripId) = None \<and>
      filter (\<lambda>t. t_id t = tripId) (group_trips (store w)) = [trip] \<and>
      t_status trip \<noteq> ''open'' \<longrightarrow>
        fst (joinTrip be tripId w) = Inl NotOpen) \<and>
     (faults be (store w) (SelectTrip tripId) \<noteq> None \<or>
      length (filter (\<lambda>t. t_id t = tripId) (group_trips (store w))) \<noteq> 1 \<longrightarrow>
        fst (joinTrip be tripId w) = Inl (NotFound tripId))"
proof -
  note j = joinTrip_before_insert [OF assms]
  have "isl (fst (joinTrip be tripId w))" by (simp add: j(1))
  moreover have "trip_participants (store (snd (joinTrip be tripId w))) = trip_participants (store w)"
    by (simp add: j(2))
  moreover have "fst (joinTrip be tripId w) = Inl AlreadyJoined"
    if "faults be (store w) (SelectTrip tripId) = None"
      "filter (\<lambda>t. t_id t = tripId) (group_trips (store w)) = [trip]"
      "t_status trip = ''open''"
      "js_num (t_current_participants trip) < js_num (t_max_participants trip)"
    using that by (simp add: j(1) select_trip_def send_def single_def js_ge_def)
  moreover have "fst (joinTrip be tripId w) = Inl Full"
    if "faults be (store w) (SelectTrip tripId) = None"
      "filter (\<lambda>t. t_id t = tripId) (group_trips (store w)) = [trip]"
      "t_status trip = ''open''"
      "js_num (t_current_participants trip) \<ge> js_num (t_max_participants trip)"
    using that by (simp add: j(1) select_trip_def send_def single_def js_ge_def)
  moreover have "fst (joinTrip be tripId w) = Inl NotOpen"
    if "faults be (store w) (SelectTrip tripId) = None"
      "filter (\<lambda>t. t_id t = tripId) (group_trips (store w)) = [trip]"
      "t_status trip \<noteq> ''open''"
    using that by (simp add: j(1) select_trip_def send_def single_def)
  moreover have "fst (joinTrip be tripId w) = Inl (NotFound tripId)"
    if "faults be (store w) (SelectTrip tripId) \<noteq> None \<or>
      length (filter (\<lambda>t. t_id t = tripId) (group_trips (store w))) \<noteq> 1"
    using that
    by (auto simp: j(1) select_trip_def send_def single_def split: option.splits list.splits)
  ultimately show ?thesis by blast
qed

theorem joinTrip_already_participant_witness:
  "fst (joinTrip (labelled_backend (\<lambda>s. None)) ''t1'' joined_world) = Inl AlreadyJoined \<and>
   trip_participants (store (snd (joinTrip (labelled_backend (\<lambda>s. None)) ''t1'' joined_world))) =
     trip_participants (store joined_world) \<and>
   fst (joinTrip (labelled_backend (\<lambda>s. None)) ''t1'' full_world) = Inl Full \<and>
   trip_participants (store (snd (joinTrip (labelled_backend (\<lambda>s. None)) ''t1'' full_world))) =
     trip_participants (store full_world)"
  using joinTrip_already_participant [where be = "labelled_backend (\<lambda>s. None)" and w = joined_world
      and uid = "''bob''" and tripId = "''t1''"
      and row = "\<lparr>p_trip_id = ''t1'', p_user_id = ''bob'', p_status = Some ''joined''\<rparr>"
      and trip = "\<lparr>t_id = ''t1'', t_organizer_id = ''alice'', t_status = ''open'',
              t_max_participants = Some 2, t_current_participants = Some 1\<rparr>"]
    joinTrip_already_participant [where be = "labelled_backend (\<lambda>s. None)" and w = full_world
      and uid = "''bob''" and tripId = "''t1''"
      and row = "\<lparr>p_trip_id = ''t1'', p_user_id = ''bob'', p_status = Some ''joined''\<rparr>"
      and trip = "\<lparr>t_id = ''t1'', t_organizer_id = ''alice'', t_status = ''open'',
              t_max_participants = Some 2, t_current_participants = Some 2\<rparr>"]
  by (simp add: labelled_faults joined_world_def full_world_def full_db_def demo_db_def
      participations_def js_num_def)

theorem joinTrip_already_participant_counterexample:
  "session (store full_world) = Some ''bob'' \<and>
   participations (store full_world) ''t1'' ''bob'' =
     [\<lparr>p_trip_id = ''t1'', p_user_id = ''bob'', p_status = Some ''joined''\<rparr>] \<and>
   fst (joinTrip (labelled_backend (\<lambda>s. None)) ''t1'' full_world) = Inl Full \<and>
   fst (joinTrip (labelled_backend (\<lambda>s. None)) ''t1'' full_world) \<noteq> Inl AlreadyJoined \<and>
   session (store joined_world) = Some ''bob'' \<and>
   participations (store joined_world) ''t1'' ''bob'' =
     [\<lparr>p_trip_id = ''t1'', p_user_id = ''bob'', p_status = Some ''joined''\<rparr>] \<and>
   fst (joinTrip lookup_down ''t1'' joined_world) =
     Inr \<lparr>p_trip_id = ''t1'', p_user_id = ''bob'', p_status = Some ''joined''\<rparr> \<and>
   participations (store (snd (joinTrip lookup_down ''t1'' joined_world))) ''t1'' ''bob'' =
     [\<lparr>p_trip_id = ''t1'', p_user_id = ''bob'', p_status = Some ''joined''\<rparr>,
      \<lparr>p_trip_id = ''t1'', p_user_id = ''bob'', p_status = Some ''joined''\<rparr>]"
proof -
  have a: "session (store full_world) = Some ''bob'' \<and>
   participations (store full_world) ''t1'' ''bob'' =
     [\<lparr>p_trip_id = ''t1'', p_user_id = ''bob'', p_status = Some ''joined''\<rparr>] \<and>
   fst (joinTrip (labelled_backend (\<lambda>s. None)) ''t1'' full_world) = Inl Full \<and>
   fst (joinTrip (labelled_backend (\<lambda>s. None)) ''t1'' full_world) \<noteq> Inl AlreadyJoined"
    by (simp add: joinTrip_def getUser_def send_def select_trip_def single_def labelled_faults
        full_world_def full_db_def demo_db_def participations_def js_ge_def js_num_def
        Full_def AlreadyJoined_def)
  have b: "session (store joined_world) = Some ''bob'' \<and>
   participations (store joined_world) ''t1'' ''bob'' =
     [\<lparr>p_trip_id = ''t1'', p_user_id = ''bob'', p_status = Some ''joined''\<rparr>]"
    by (simp add: joined_world_def demo_db_def participations_def)
  have c: "participations (store (snd (joinTrip lookup_down ''t1'' joined_world))) ''t1'' ''bob'' =
     [\<lparr>p_trip_id = ''t1'', p_user_id = ''bob'', p_status = Some ''joined''\<rparr>,
      \<lparr>p_trip_id = ''t1'', p_user_id = ''bob'', p_status = Some ''joined''\<rparr>]"
    by (simp add: joinTrip_after_failed_lookup participations_def joined_world_fields)
  have d: "fst (joinTrip lookup_down ''t1'' joined_world) =
     Inr \<lparr>p_trip_id = ''t1'', p_user_id = ''bob'', p_status = Some ''joined''\<rparr>"
    by (simp add: joinTrip_after_failed_lookup)
  show ?thesis using a b c d by blast
qed

section \<open>Reads by status see what joinTrip wrote\<close>

lemma tryStatuses_Some:
  "tryStatuses be t u ls e w = (Some row, e', w') \<Longrightarrow>
   \<exists>l\<in>set ls. row = \<lparr>p_trip_id = t, p_user_id = u, p_status = Some l\<rparr> \<and>
     store w' = (store w)\<lparr>trip_participants := trip_participants (store w) @ [row]\<rparr>"
proof (induction ls arbitrary: e w)
  case Nil
  then show ?case by simp
next
  case (Cons a ls)
  show ?case
  proof (cases "faults be (store w) (InsertParticipant t u (Some a))")
    case None
    with Cons.prems show ?thesis
      by (auto simp: insert_participant_def send_def Let_def)
  next
    case (Some err)
    show ?thesis
    proof (cases "code err = ''23514''")
      case True
      with Some Cons.prems
      have "tryStatuses be t u ls (Some err) (w\<lparr>sent := sent w @ [InsertParticipant t u (Some a)]\<rparr>)
              = (Some row, e', w')"
        by (simp add: insert_participant_def send_def)
      from Cons.IH [OF this] show ?thesis by auto
    next
      case False
      with Some Cons.prems show ?thesis
        by (simp add: insert_participant_def send_def)
    qed
  qed
qed

lemma joinTrip_Inr:
  assumes "joinTrip be t w = (Inr row, w')"
  shows "\<exists>uid l trip. session (store w) = Some uid \<and> l \<in> set statusValues \<and>
           row = \<lparr>p_trip_id = t, p_user_id = uid, p_status = Some l\<rparr> \<and>
           store w' = (store w)\<lparr>trip_participants := trip_participants (store w) @ [row]\<rparr> \<and>
           filter (\<lambda>x. t_id x = t) (group_trips (store w)) = [trip]"
proof -
  from assms obtain uid where u: "session (store w) = Some uid" "faults be (store w) AuthGetUser = None"
    by (auto simp: joinTrip_def getUser_def send_def split: option.splits)
  from assms u obtain trip where tr: "filter (\<lambda>x. t_id x = t) (group_trips (store w)) = [trip]"
    by (auto simp: joinTrip_def getUser_def send_def select_trip_def single_def
        split: option.splits list.splits)
  from assms u tr obtain d e w4 w5 where
    ts: "tryStatuses be t uid statusValues None w4 = (d, e, w5)" "store w4 = store w"
      "joinOutcome t d e = Inr row" "w5 = w'"
    by (auto simp: joinTrip_def getUser_def send_def select_trip_def select_participation_def
        single_def split: option.splits list.splits if_splits sum.splits prod.splits)
  from ts(3) have "d = Some row"
    by (auto simp: joinOutcome_def split: option.splits if_splits)
  with ts(1) tryStatuses_Some [of be t uid statusValues None w4 row e w5] ts(2,4)
  show ?thesis using u tr by auto
qed


lemma join_labels_readable:
  "set statusValues \<subseteq> set getUserJoinedTrips_statuses"
  "set statusValues \<subseteq> set sendTripMessage_statuses"
  "set statusValues \<subseteq> set debugChatPermission_statuses"
  by (simp_all add: statusValues_def getUserJoinedTrips_statuses_def sendTripMessage_statuses_def
      debugChatPermission_statuses_def)

lemma listing_shows:
  assumes "row \<in> set (trip_participants (store w))" and "p_user_id row = uid"
    and "status_in getUserJoinedTrips_statuses row" and "p_trip_id row = t"
    and "trip \<in> set (group_trips (store w))" and "t_id trip = t"
    and "faults be (store w) (SelectJoinedParticipations uid getUserJoinedTrips_statuses) = None"
    and "\<forall>ids. faults be (store w) (SelectTripsIn ids) = None"
  shows "\<exists>trips. fst (getUserJoinedTrips be uid w) = Inr trips \<and> trip \<in> fst ` set trips"
proof -
  let ?ps = "filter (\<lambda>p. p_user_id p = uid \<and> status_in getUserJoinedTrips_statuses p)
               (trip_participants (store w))"
  have in_ps: "row \<in> set ?ps" using assms(1-3) by simp
  have ne: "?ps \<noteq> []"
  proof
    assume e: "?ps = []"
    from in_ps show False unfolding e by simp
  qed
  have "t \<in> set (map p_trip_id ?ps)" using in_ps assms(4) by force
  then have "trip \<in> set (filter (\<lambda>x. t_id x \<in> set (map p_trip_id ?ps)) (group_trips (store w)))"
    using assms(5,6) by simp
  then show ?thesis
    using ne assms(7,8)
    by (auto simp: getUserJoinedTrips_def send_def Let_def image_iff split: option.splits prod.splits)
qed

lemma chat_permitted:
  assumes "filter (status_in sendTripMessage_statuses) (participations (store w) t uid) = [row]"
    and "faults be (store w) AuthGetUser = None" and "session (store w) = Some uid"
    and "faults be (store w) (SelectChatParticipation t uid sendTripMessage_statuses) = None"
    and "faults be (store w) (InsertChatMessage t uid (trim msg)) = None"
  shows "fst (sendTripMessage be t msg w) =
           Inr \<lparr>c_trip_id = t, c_sender_id = uid, c_message = trim msg\<rparr>"
  using assms
  by (simp add: sendTripMessage_def chat_permission_def getUser_def send_def single_def Let_def)

text \<open>
  Claim C3, as amended. The three status filters of the code (the joined-trips listing,
  the chat permission check of \<^verbatim>\<open>sendTripMessage\<close>, and \<^verbatim>\<open>debugChatPermission\<close>) use the
  labels joined, confirmed, accepted, active and pending, which hold every label of
  \<open>statusValues\<close>. So whenever \<^verbatim>\<open>joinTrip\<close> returns a record, that record is stored and
  passes each of the three filters. The listing of the caller's joined trips then contains
  the trip, when its request for the participations and its request for the trips are
  answered. And \<^verbatim>\<open>sendTripMessage\<close> by the caller is then permitted and returns the
  trimmed message, when before the join the caller had no record of the trip under one
  of the five labels, and the session read, the participation read of the permission check
  and the insert of the message are answered.

  Without the condition on earlier records the claim fails (the counterexample below):
  after a failed participation lookup \<^verbatim>\<open>joinTrip\<close> stores a second record for Bob, the
  permission check reads the record with \<^verbatim>\<open>.single()\<close>, which fails on two rows, and
  \<^verbatim>\<open>sendTripMessage\<close> refuses Bob, whose record carries a label of the list.
\<close>

theorem status_reads_cover_join_labels:
  "set statusValues \<subseteq> set getUserJoinedTrips_statuses \<and>
   set statusValues \<subseteq> set sendTripMessage_statuses \<and>
   set statusValues \<subseteq> set debugChatPermission_statuses \<and>
   (fst (joinTrip be tripId w) = Inr row \<longrightarrow>
      (let w' = snd (joinTrip be tripId w); uid = p_user_id row in
         p_trip_id row = tripId \<and> session (store w) = Some uid \<and>
         row \<in> set (trip_participants (store w')) \<and>
         status_in getUserJoinedTrips_statuses row \<and>
         status_in sendTripMessage_statuses row \<and>
         status_in debugChatPermission_statuses row \<and>
         (faults be (store w') (SelectJoinedParticipations uid getUserJoinedTrips_statuses) = None \<and>
          (\<forall>ids. faults be (store w') (SelectTripsIn ids) = None) \<longrightarrow>
            (\<exists>trips. fst (getUserJoinedTrips be uid w') = Inr trips \<and>
                     tripId \<in> t_id ` fst ` set trips)) \<and>
         (filter (status_in sendTripMessage_statuses) (participations (store w) tripId uid) = [] \<and>
          faults be (store w') AuthGetUser = None \<and>
          faults be (store w') (SelectChatParticipation tripId uid sendTripMessage_statuses) = None \<and>
          faults be (store w') (InsertChatMessage tripId uid (trim msg)) = None \<longrightarrow>
            fst (sendTripMessage be tripId msg w') =
              Inr \<lparr>c_trip_id = tripId, c_sender_id = uid, c_message = trim msg\<rparr>)))"
proof (intro conjI impI)
  assume j: "fst (joinTrip be tripId w) = Inr row"
  define w' where "w' = snd (joinTrip be tripId w)"
  have "joinTrip be tripId w = (Inr row, w')" using j by (simp add: w'_def prod_eq_iff)
  from joinTrip_Inr [OF this] obtain uid l trip where
    f: "session (store w) = Some uid" "l \<in> set statusValues"
      "row = \<lparr>p_trip_id = tripId, p_user_id = uid, p_status = Some l\<rparr>"
      "store w' = (store w)\<lparr>trip_participants := trip_participants (store w) @ [row]\<rparr>"
      "filter (\<lambda>x. t_id x = tripId) (group_trips (store w)) = [trip]"
    by blast
  have uid: "p_user_id row = uid" and tid: "p_trip_id row = tripId" using f(3) by simp_all
  have st: "status_in getUserJoinedTrips_statuses row" "status_in sendTripMessage_statuses row"
    "status_in debugChatPermission_statuses row"
    using f(2,3) join_labels_readable by (auto simp: status_in_def)
  have mem: "row \<in> set (trip_participants (store w'))" by (simp add: f(4))
  have "trip \<in> set (filter (\<lambda>x. t_id x = tripId) (group_trips (store w)))" by (simp add: f(5))
  then have trip: "trip \<in> set (group_trips (store w'))" "t_id trip = tripId"
    by (simp_all add: f(4))
  have listing: "\<exists>trips. fst (getUserJoinedTrips be uid w') = Inr trips \<and>
                     tripId \<in> t_id ` fst ` set trips"
    if "faults be (store w') (SelectJoinedParticipations uid getUserJoinedTrips_statuses) = None"
      "\<forall>ids. faults be (store w') (SelectTripsIn ids) = None"
  proof -
    from listing_shows [OF mem uid st(1) tid trip that]
    obtain trips where "fst (getUserJoinedTrips be uid w') = Inr trips" "trip \<in> fst ` set trips"
      by blast
    then show ?thesis using trip(2) by (intro exI [of _ trips]) auto
  qed
  have chat: "fst (sendTripMessage be tripId msg w') =
              Inr \<lparr>c_trip_id = tripId, c_sender_id = uid, c_message = trim msg\<rparr>"
    if "filter (status_in sendTripMessage_statuses) (participations (store w) tripId uid) = []"
      "faults be (store w') AuthGetUser = None"
      "faults be (store w') (SelectChatParticipation tripId uid sendTripMessage_statuses) = None"
      "faults be (store w') (InsertChatMessage tripId uid (trim msg)) = None"
  proof -
    have "participations (store w') tripId uid = participations (store w) tripId uid @ [row]"
      by (simp add: participations_def f(4) f(3))
    then have "filter (status_in sendTripMessage_statuses) (participations (store w') tripId uid) = [row]"
      using that(1) st(2) by simp
    moreover have "session (store w') = Some uid" by (simp add: f(4) f(1))
    ultimately show ?thesis using that(2-4) by (intro chat_permitted) simp_all
  qed
  show "let w' = snd (joinTrip be tripId w); uid = p_user_id row in
         p_trip_id row = tripId \<and> session (store w) = Some uid \<and>
         row \<in> set (trip_participants (store w')) \<and>
         status_in getUserJoinedTrips_statuses row \<and>
         status_in sendTripMessage_statuses row \<and>
         status_in debugChatPermission_statuses row \<and>
         (faults be (store w') (SelectJoinedParticipations uid getUserJoinedTrips_statuses) = None \<and>
          (\<forall>ids. faults be (store w') (SelectTripsIn ids) = None) \<longrightarrow>
            (\<exists>trips. fst (getUserJoinedTrips be uid w') = Inr trips \<and>
                     tripId \<in> t_id ` fst ` set trips)) \<and>
         (filter (status_in sendTripMessage_statuses) (participations (store w) tripId uid) = [] \<and>
          faults be (store w') AuthGetUser = None \<and>
          faults be (store w') (SelectChatParticipation tripId uid sendTripMessage_statuses) = None \<and>
          faults be (store w') (InsertChatMessage tripId uid (trim msg)) = None \<longrightarrow>
            fst (sendTripMessage be tripId msg w') =
              Inr \<lparr>c_trip_id = tripId, c_sender_id = uid, c_message = trim msg\<rparr>)"
    unfolding Let_def w'_def [symmetric] uid
    using tid f(1) mem st listing chat by blast
qed (rule join_labels_readable)+


theorem status_reads_cover_join_labels_witness:
  "fst (joinTrip (labelled_backend (\<lambda>s. if s = ''active'' then None else Some check_violation))
          ''t1'' demo_world) =
     Inr \<lparr>p_trip_id = ''t1'', p_user_id = ''bob'', p_status = Some ''active''\<rparr> \<and>
   (\<exists>trips. fst (getUserJoinedTrips (labelled_backend (\<lambda>s. if s = ''active'' then None else Some check_violation))
                  ''bob''
                  (snd (joinTrip (labelled_backend (\<lambda>s. if s = ''active'' then None else Some check_violation))
                          ''t1'' demo_world))) = Inr trips \<and>
            ''t1'' \<in> t_id ` fst ` set trips) \<and>
   fst (sendTripMessage (labelled_backend (\<lambda>s. if s = ''active'' then None else Some check_violation))
          ''t1'' [0x20, 0x48, 0x69, 0x21, 0xA0, 0x0A]
          (snd (joinTrip (labelled_backend (\<lambda>s. if s = ''active'' then None else Some check_violation))
                  ''t1'' demo_world))) =
     Inr \<lparr>c_trip_id = ''t1'', c_sender_id = ''bob'', c_message = [0x48, 0x69, 0x21]\<rparr>"
proof -
  let ?be = "labelled_backend (\<lambda>s. if s = ''active'' then None else Some check_violation)"
  let ?row = "\<lparr>p_trip_id = ''t1'', p_user_id = ''bob'', p_status = Some ''active''\<rparr>"
  have j: "fst (joinTrip ?be ''t1'' demo_world) = Inr ?row"
    using joinTrip_accepted [OF demo_preconditions, where pre = "[''joined'', ''confirmed'', ''accepted'']"
        and l = "''active''" and post = "[]"]
    by (simp add: statusValues_def check_rejected_def labelled_faults check_violation_def)
  have np: "participations (store demo_world) ''t1'' ''bob'' = []"
    by (simp add: demo_world_def demo_db_def participations_def)
  have t: "trim [0x20, 0x48, 0x69, 0x21, 0xA0, 0x0A] = [0x48, 0x69, 0x21]"
    by (simp add: trim_def is_space_def)
  show ?thesis
    using status_reads_cover_join_labels [where be = ?be and tripId = "''t1''" and w = demo_world
        and row = ?row and msg = "[0x20, 0x48, 0x69, 0x21, 0xA0, 0x0A]"]
    by (simp add: j t np Let_def labelled_faults)
qed

theorem status_reads_cover_join_labels_counterexample:
  "fst (joinTrip lookup_down ''t1'' joined_world) =
     Inr \<lparr>p_trip_id = ''t1'', p_user_id = ''bob'', p_status = Some ''joined''\<rparr> \<and>
   status_in sendTripMessage_statuses \<lparr>p_trip_id = ''t1'', p_user_id = ''bob'', p_status = Some ''joined''\<rparr> \<and>
   session (store (snd (joinTrip lookup_down ''t1'' joined_world))) = Some ''bob'' \<and>
   faults lookup_down (store (snd (joinTrip lookup_down ''t1'' joined_world))) AuthGetUser = None \<and>
   faults lookup_down (store (snd (joinTrip lookup_down ''t1'' joined_world)))
     (SelectChatParticipation ''t1'' ''bob'' sendTripMessage_statuses) = None \<and>
   faults lookup_down (store (snd (joinTrip lookup_down ''t1'' joined_world)))
     (InsertChatMessage ''t1'' ''bob'' (trim [0x48, 0x69, 0x21])) = None \<and>
   fst (sendTripMessage lookup_down ''t1'' [0x48, 0x69, 0x21] (snd (joinTrip lookup_down ''t1'' joined_world))) =
     Inl NotPermitted"
proof -
  have f: "faults lookup_down d AuthGetUser = None"
    "faults lookup_down d (SelectChatParticipation ''t1'' ''bob'' ls) = None"
    "faults lookup_down d (SelectTripOrganizer ''t1'') = None"
    "faults lookup_down d (InsertChatMessage ''t1'' ''bob'' m) = None" for d m ls
    by (simp_all add: lookup_down_def failing_faults)
  have s: "status_in sendTripMessage_statuses
             \<lparr>p_trip_id = ''t1'', p_user_id = ''bob'', p_status = Some ''joined''\<rparr>"
    by (simp add: status_in_def sendTripMessage_statuses_def)
  have n: "fst (sendTripMessage lookup_down ''t1'' [0x48, 0x69, 0x21]
                  (snd (joinTrip lookup_down ''t1'' joined_world))) = Inl NotPermitted"
    by (simp add: joinTrip_after_failed_lookup sendTripMessage_def chat_permission_def getUser_def
        send_def f single_def Let_def participations_def status_in_def sendTripMessage_statuses_def
        joined_world_fields)
  have u: "session (store (snd (joinTrip lookup_down ''t1'' joined_world))) = Some ''bob''"
    by (simp add: joinTrip_after_failed_lookup joined_world_fields)
  have d: "fst (joinTrip lookup_down ''t1'' joined_world) =
     Inr \<lparr>p_trip_id = ''t1'', p_user_id = ''bob'', p_status = Some ''joined''\<rparr>"
    by (simp add: joinTrip_after_failed_lookup)
  show ?thesis using s n u d f by blast
qed

section \<open>Leaving a trip\<close>

lemma leaveTrip_deletes:
  assumes "faults be (store w) AuthGetUser = None" and "session (store w) = Some uid"
    and "faults be (store w) (DeleteParticipant tripId uid) = None"
  shows "leaveTrip be tripId w =
     (Inr True,
      \<lparr>store = (store w)\<lparr>trip_participants :=
                 filter (\<lambda>p. \<not> (p_trip_id p = tripId \<and> p_user_id p = uid))
                   (trip_participants (store w))\<rparr>,
       sent = sent w @ [AuthGetUser, DeleteParticipant tripId uid]\<rparr>)"
  using assms by (simp add: leaveTrip_def getUser_def send_def)

lemma handleJoinLeave_organizer:
  assumes "user pg \<noteq> None" and "tripData pg \<noteq> None" and "isOrganizer pg"
  shows "handleJoinLeave be tripId (pg, w) =
     (pg\<lparr>toasts := toasts pg @
          [\<lparr>title = ''Cannot Leave Trip'',
            description = ''As the trip organizer, you cannot leave your own trip.'',
            destructive = True\<rparr>]\<rparr>, w)"
  using assms by (auto simp: handleJoinLeave_def)

lemma handleJoinLeave_leave:
  assumes "user pg \<noteq> None" and "tripData pg \<noteq> None" and "\<not> isOrganizer pg" and "isJoined pg"
  shows "snd (handleJoinLeave be tripId (pg, w)) = snd (leaveTrip be tripId w)"
  using assms by (auto simp: handleJoinLeave_def split: prod.splits sum.splits)

text \<open>
  Claim C9. \<^verbatim>\<open>leaveTrip\<close> sends the session read and the delete and nothing else: it
  never reads \<^verbatim>\<open>group_trips\<close>, so it has no organizer guard. For a signed-in caller whose
  delete the backend accepts it returns \<^verbatim>\<open>true\<close> and removes every record of the pair
  (trip, caller), leaving the other records, whoever organizes the trip. The rule that the
  organizer may not leave is in the page only: \<^verbatim>\<open>handleJoinLeave\<close> with \<^verbatim>\<open>isOrganizer\<close> set
  shows the toast and sends nothing, and for a joined non-organizer it calls
  \<^verbatim>\<open>leaveTrip\<close>.
\<close>

theorem leaveTrip_no_organizer_guard:
  "(faults be (store w) AuthGetUser = None \<and> session (store w) = Some uid \<and>
    faults be (store w) (DeleteParticipant tripId uid) = None \<longrightarrow>
      fst (leaveTrip be tripId w) = Inr True \<and>
      sent (snd (leaveTrip be tripId w)) = sent w @ [AuthGetUser, DeleteParticipant tripId uid] \<and>
      trip_participants (store (snd (leaveTrip be tripId w))) =
        filter (\<lambda>p. \<not> (p_trip_id p = tripId \<and> p_user_id p = uid)) (trip_participants (store w)) \<and>
      participations (store (snd (leaveTrip be tripId w))) tripId uid = []) \<and>
   (user pg \<noteq> None \<and> tripData pg \<noteq> None \<and> isOrganizer pg \<longrightarrow>
      snd (handleJoinLeave be tripId (pg, w)) = w \<and>
      map title (toasts (fst (handleJoinLeave be tripId (pg, w)))) =
        map title (toasts pg) @ [''Cannot Leave Trip'']) \<and>
   (user pg \<noteq> None \<and> tripData pg \<noteq> None \<and> \<not> isOrganizer pg \<and> isJoined pg \<longrightarrow>
      snd (handleJoinLeave be tripId (pg, w)) = snd (leaveTrip be tripId w))"
proof (intro conjI impI)
  assume a: "faults be (store w) AuthGetUser = None \<and> session (store w) = Some uid \<and>
    faults be (store w) (DeleteParticipant tripId uid) = None"
  then have l: "leaveTrip be tripId w =
     (Inr True,
      \<lparr>store = (store w)\<lparr>trip_participants :=
                 filter (\<lambda>p. \<not> (p_trip_id p = tripId \<and> p_user_id p = uid))
                   (trip_participants (store w))\<rparr>,
       sent = sent w @ [AuthGetUser, DeleteParticipant tripId uid]\<rparr>)"
    by (intro leaveTrip_deletes) simp_all
  show "fst (leaveTrip be tripId w) = Inr True" by (simp add: l)
  show "sent (snd (leaveTrip be tripId w)) = sent w @ [AuthGetUser, DeleteParticipant tripId uid]"
    by (simp add: l)
  show "trip_participants (store (snd (leaveTrip be tripId w))) =
        filter (\<lambda>p. \<not> (p_trip_id p = tripId \<and> p_user_id p = uid)) (trip_participants (store w))"
    by (simp add: l)
  show "participations (store (snd (leaveTrip be tripId w))) tripId uid = []"
    by (simp add: l participations_def filter_empty_conv)
next
  assume a: "user pg \<noteq> None \<and> tripData pg \<noteq> None \<and> isOrganizer pg"
  then have h: "handleJoinLeave be tripId (pg, w) =
     (pg\<lparr>toasts := toasts pg @
          [\<lparr>title = ''Cannot Leave Trip'',
            description = ''As the trip organizer, you cannot leave your own trip.'',
            destructive = True\<rparr>]\<rparr>, w)"
    by (intro handleJoinLeave_organizer) simp_all
  show "snd (handleJoinLeave be tripId (pg, w)) = w" by (simp add: h)
  show "map title (toasts (fst (handleJoinLeave be tripId (pg, w)))) =
        map title (toasts pg) @ [''Cannot Leave Trip'']" by (simp add: h)
next
  assume "user pg \<noteq> None \<and> tripData pg \<noteq> None \<and> \<not> isOrganizer pg \<and> isJoined pg"
  then show "snd (handleJoinLeave be tripId (pg, w)) = snd (leaveTrip be tripId w)"
    by (intro handleJoinLeave_leave) simp_all
qed

theorem leaveTrip_no_organizer_guard_witness:
  "fst (leaveTrip (labelled_backend (\<lambda>s. None)) ''t1'' organizer_world) = Inr True \<and>
   trip_participants (store (snd (leaveTrip (labelled_backend (\<lambda>s. None)) ''t1'' organizer_world))) =
     [\<lparr>p_trip_id = ''t1'', p_user_id = ''bob'', p_status = Some ''joined''\<rparr>] \<and>
   snd (handleJoinLeave (labelled_backend (\<lambda>s. None)) ''t1'' (organizer_page, organizer_world)) =
     organizer_world \<and>
   snd (handleJoinLeave (labelled_backend (\<lambda>s. None)) ''t1''
          (demo_page\<lparr>isJoined := True\<rparr>, joined_world)) =
     snd (leaveTrip (labelled_backend (\<lambda>s. None)) ''t1'' joined_world)"
proof -
  have o: "session (store organizer_world) = Some ''alice''"
    "trip_participants (store organizer_world) =
       [\<lparr>p_trip_id = ''t1'', p_user_id = ''alice'', p_status = Some ''joined''\<rparr>,
        \<lparr>p_trip_id = ''t1'', p_user_id = ''bob'', p_status = Some ''joined''\<rparr>]"
    by (simp_all add: organizer_world_def joined_world_def demo_db_def)
  have p: "user organizer_page = Some ''alice''" "tripData organizer_page \<noteq> None"
    "isOrganizer organizer_page" "user demo_page = Some ''bob''" "tripData demo_page \<noteq> None"
    "\<not> isOrganizer demo_page"
    by (simp_all add: organizer_page_def demo_page_def)
  show ?thesis
    using leaveTrip_no_organizer_guard [where be = "labelled_backend (\<lambda>s. None)" and w = organizer_world
        and uid = "''alice''" and tripId = "''t1''" and pg = organizer_page]
      leaveTrip_no_organizer_guard [where be = "labelled_backend (\<lambda>s. None)" and w = joined_world
        and uid = "''bob''" and tripId = "''t1''" and pg = "demo_page\<lparr>isJoined := True\<rparr>"]
    by (simp add: o p labelled_faults)
qed

section \<open>Creating a trip\<close>

lemma createTrip_Inr:
  assumes "fst (createTrip be m w) = Inr trip"
  shows "\<exists>uid. session (store w) = Some uid \<and>
           trip = \<lparr>t_id = new_trip_id be (store w), t_organizer_id = uid,
                   t_status = trip_status_default be, t_max_participants = m,
                   t_current_participants = trip_count_default be\<rparr> \<and>
           sent (snd (createTrip be m w)) =
             sent w @ [AuthGetUser, InsertTrip uid m, InsertParticipant (t_id trip) uid None] \<and>
           store (snd (createTrip be m w)) =
             (case faults be ((store w)\<lparr>group_trips := group_trips (store w) @ [trip]\<rparr>)
                     (InsertParticipant (t_id trip) uid None) of
                Some e \<Rightarrow> (store w)\<lparr>group_trips := group_trips (store w) @ [trip]\<rparr>
              | None \<Rightarrow>
                  (store w)\<lparr>group_trips := group_trips (store w) @ [trip],
                            trip_participants := trip_participants (store w) @
                              [\<lparr>p_trip_id = t_id trip, p_user_id = uid,
                                p_status = status_default be\<rparr>]\<rparr>)"
  using assms
  by (auto simp: createTrip_def getUser_def send_def insert_participant_def Let_def
      split: option.splits prod.splits)

lemma listing_only:
  assumes r: "fst (getUserJoinedTrips be uid w) = Inr trips" and t: "trip \<in> fst ` set trips"
  shows "\<exists>row\<in>set (trip_participants (store w)).
           p_user_id row = uid \<and> status_in getUserJoinedTrips_statuses row \<and> p_trip_id row = t_id trip"
proof -
  let ?ps = "filter (\<lambda>p. p_user_id p = uid \<and> status_in getUserJoinedTrips_statuses p)
               (trip_participants (store w))"
  let ?td = "filter (\<lambda>x. t_id x \<in> set (map p_trip_id ?ps)) (group_trips (store w))"
  have ne: "?ps \<noteq> []"
  proof
    assume "?ps = []"
    with r have "trips = []"
      by (auto simp: getUserJoinedTrips_def send_def Let_def split: option.splits)
    with t show False by simp
  qed
  with r have "map fst trips = ?td"
    by (auto simp: getUserJoinedTrips_def send_def Let_def comp_def split: option.splits)
  with t have "trip \<in> set ?td" by (metis set_map)
  then have "t_id trip \<in> set (map p_trip_id ?ps)" by simp
  then obtain row where "row \<in> set ?ps" "p_trip_id row = t_id trip" by auto
  then show ?thesis by auto
qed


lemma listing_returns:
  assumes "faults be (store w) (SelectJoinedParticipations uid getUserJoinedTrips_statuses) = None"
    and "\<forall>ids. faults be (store w) (SelectTripsIn ids) = None"
  shows "\<exists>trips. fst (getUserJoinedTrips be uid w) = Inr trips"
  using assms
  by (auto simp: getUserJoinedTrips_def send_def Let_def split: option.splits prod.splits)

lemma default_status_in:
  "status_in labels \<lparr>p_trip_id = t, p_user_id = u, p_status = d\<rparr> \<longleftrightarrow> d \<in> Some ` set labels"
  by (cases d) (auto simp: status_in_def)

text \<open>
  Claim C10, as amended. When \<^verbatim>\<open>createTrip\<close> returns the trip, it has sent exactly one
  insert into \<^verbatim>\<open>trip_participants\<close>, for the organizer and with no status in the
  payload, and it does not look at the answer. When the backend accepts that insert,
  exactly one record is added, the organizer's, and its status is the column default of
  the backend; when the backend rejects it, no record is added and \<^verbatim>\<open>createTrip\<close> returns
  the trip all the same. The organizer's record passes the status filter of
  \<^verbatim>\<open>getUserJoinedTrips\<close> exactly when that default is one of the filter's labels. And
  when the insert is accepted, no earlier participant record bears the identifier of the
  new trip, and the two requests of the listing (participations, trips) are answered, the
  new trip is in the organizer's joined-trips listing exactly when the default is one of
  the labels.

  As stated for every successful call the claim fails (the counterexample below): with a
  backend that refuses the insert of the participant, \<^verbatim>\<open>createTrip\<close> returns the trip
  and no record of the organizer is stored.
\<close>

theorem createTrip_enrols_organizer_by_default:
  "fst (createTrip be m w) = Inr trip \<longrightarrow>
     (let w' = snd (createTrip be m w);
          uid = t_organizer_id trip;
          with_trip = (store w)\<lparr>group_trips := group_trips (store w) @ [trip]\<rparr>;
          organizer_row = \<lparr>p_trip_id = t_id trip, p_user_id = uid, p_status = status_default be\<rparr>
      in session (store w) = Some uid \<and>
         sent w' = sent w @ [AuthGetUser, InsertTrip uid m, InsertParticipant (t_id trip) uid None] \<and>
         (faults be with_trip (InsertParticipant (t_id trip) uid None) = None \<longrightarrow>
            trip_participants (store w') = trip_participants (store w) @ [organizer_row]) \<and>
         (faults be with_trip (InsertParticipant (t_id trip) uid None) \<noteq> None \<longrightarrow>
            trip_participants (store w') = trip_participants (store w)) \<and>
         (status_in getUserJoinedTrips_statuses organizer_row \<longleftrightarrow>
            status_default be \<in> Some ` set getUserJoinedTrips_statuses) \<and>
         (faults be with_trip (InsertParticipant (t_id trip) uid None) = None \<and>
          (\<forall>p\<in>set (trip_participants (store w)). p_trip_id p \<noteq> t_id trip) \<and>
          faults be (store w') (SelectJoinedParticipations uid getUserJoinedTrips_statuses) = None \<and>
          (\<forall>ids. faults be (store w') (SelectTripsIn ids) = None) \<longrightarrow>
            (\<exists>trips. fst (getUserJoinedTrips be uid w') = Inr trips \<and>
               (trip \<in> fst ` set trips \<longleftrightarrow>
                  status_default be \<in> Some ` set getUserJoinedTrips_statuses))))"
proof
  assume c: "fst (createTrip be m w) = Inr trip"
  define w' where "w' = snd (createTrip be m w)"
  define with_trip where "with_trip = (store w)\<lparr>group_trips := group_trips (store w) @ [trip]\<rparr>"
  define uid where "uid = t_organizer_id trip"
  define organizer_row where
    "organizer_row = \<lparr>p_trip_id = t_id trip, p_user_id = uid, p_status = status_default be\<rparr>"
  from createTrip_Inr [OF c] obtain u where
    u: "session (store w) = Some u"
      "trip = \<lparr>t_id = new_trip_id be (store w), t_organizer_id = u,
                   t_status = trip_status_default be, t_max_participants = m,
                   t_current_participants = trip_count_default be\<rparr>"
      "sent (snd (createTrip be m w)) =
             sent w @ [AuthGetUser, InsertTrip u m, InsertParticipant (t_id trip) u None]"
      "store (snd (createTrip be m w)) =
             (case faults be ((store w)\<lparr>group_trips := group_trips (store w) @ [trip]\<rparr>)
                     (InsertParticipant (t_id trip) u None) of
                Some e \<Rightarrow> (store w)\<lparr>group_trips := group_trips (store w) @ [trip]\<rparr>
              | None \<Rightarrow>
                  (store w)\<lparr>group_trips := group_trips (store w) @ [trip],
                            trip_participants := trip_participants (store w) @
                              [\<lparr>p_trip_id = t_id trip, p_user_id = u,
                                p_status = status_default be\<rparr>]\<rparr>)"
    by blast
  have uu: "u = uid" unfolding uid_def by (subst u(2)) simp
  have s: "session (store w) = Some uid" using u(1) uu by simp
  have snt: "sent w' = sent w @ [AuthGetUser, InsertTrip uid m, InsertParticipant (t_id trip) uid None]"
    using u(3) uu by (simp add: w'_def)
  have st: "store w' =
             (case faults be with_trip (InsertParticipant (t_id trip) uid None) of
                Some e \<Rightarrow> with_trip
              | None \<Rightarrow> with_trip\<lparr>trip_participants := trip_participants (store w) @ [organizer_row]\<rparr>)"
    using u(4) uu by (simp add: w'_def with_trip_def organizer_row_def split: option.splits)
  have acc: "trip_participants (store w') = trip_participants (store w) @ [organizer_row]"
    if "faults be with_trip (InsertParticipant (t_id trip) uid None) = None"
    using that by (simp add: st)
  have rej: "trip_participants (store w') = trip_participants (store w)"
    if "faults be with_trip (InsertParticipant (t_id trip) uid None) \<noteq> None"
    using that by (auto simp: st with_trip_def)
  have vis: "status_in getUserJoinedTrips_statuses organizer_row \<longleftrightarrow>
            status_default be \<in> Some ` set getUserJoinedTrips_statuses"
    by (simp add: organizer_row_def default_status_in)
  have listing: "\<exists>trips. fst (getUserJoinedTrips be uid w') = Inr trips \<and>
               (trip \<in> fst ` set trips \<longleftrightarrow>
                  status_default be \<in> Some ` set getUserJoinedTrips_statuses)"
    if a: "faults be with_trip (InsertParticipant (t_id trip) uid None) = None"
      and fresh: "\<forall>p\<in>set (trip_participants (store w)). p_trip_id p \<noteq> t_id trip"
      and r1: "faults be (store w') (SelectJoinedParticipations uid getUserJoinedTrips_statuses) = None"
      and r2: "\<forall>ids. faults be (store w') (SelectTripsIn ids) = None"
  proof -
    from listing_returns [OF r1 r2] obtain trips where
      tr: "fst (getUserJoinedTrips be uid w') = Inr trips" by blast
    have mem: "organizer_row \<in> set (trip_participants (store w'))" by (simp add: acc [OF a])
    have tin: "trip \<in> set (group_trips (store w'))" using a by (simp add: st with_trip_def)
    have "trip \<in> fst ` set trips \<longleftrightarrow> status_in getUserJoinedTrips_statuses organizer_row"
    proof
      assume "trip \<in> fst ` set trips"
      from listing_only [OF tr this] obtain row where
        row: "row \<in> set (trip_participants (store w'))" "p_user_id row = uid"
          "status_in getUserJoinedTrips_statuses row" "p_trip_id row = t_id trip"
        by blast
      from row(1,4) fresh have "row = organizer_row" by (auto simp: acc [OF a])
      with row(3) show "status_in getUserJoinedTrips_statuses organizer_row" by simp
    next
      assume v: "status_in getUserJoinedTrips_statuses organizer_row"
      have "\<exists>ts. fst (getUserJoinedTrips be uid w') = Inr ts \<and> trip \<in> fst ` set ts"
        by (rule listing_shows [OF mem _ v _ tin _ r1 r2]) (simp_all add: organizer_row_def)
      with tr show "trip \<in> fst ` set trips" by auto
    qed
    with tr vis show ?thesis by blast
  qed
  show "let w' = snd (createTrip be m w);
          uid = t_organizer_id trip;
          with_trip = (store w)\<lparr>group_trips := group_trips (store w) @ [trip]\<rparr>;
          organizer_row = \<lparr>p_trip_id = t_id trip, p_user_id = uid, p_status = status_default be\<rparr>
      in session (store w) = Some uid \<and>
         sent w' = sent w @ [AuthGetUser, InsertTrip uid m, InsertParticipant (t_id trip) uid None] \<and>
         (faults be with_trip (InsertParticipant (t_id trip) uid None) = None \<longrightarrow>
            trip_participants (store w') = trip_participants (store w) @ [organizer_row]) \<and>
         (faults be with_trip (InsertParticipant (t_id trip) uid None) \<noteq> None \<longrightarrow>
            trip_participants (store w') = trip_participants (store w)) \<and>
         (status_in getUserJoinedTrips_statuses organizer_row \<longleftrightarrow>
            status_default be \<in> Some ` set getUserJoinedTrips_statuses) \<and>
         (faults be with_trip (InsertParticipant (t_id trip) uid None) = None \<and>
          (\<forall>p\<in>set (trip_participants (store w)). p_trip_id p \<noteq> t_id trip) \<and>
          faults be (store w') (SelectJoinedParticipations uid getUserJoinedTrips_statuses) = None \<and>
          (\<forall>ids. faults be (store w') (SelectTripsIn ids) = None) \<longrightarrow>
            (\<exists>trips. fst (getUserJoinedTrips be uid w') = Inr trips \<and>
               (trip \<in> fst ` set trips \<longleftrightarrow>
                  status_default be \<in> Some ` set getUserJoinedTrips_statuses)))"
    unfolding Let_def w'_def [symmetric] uid_def [symmetric] with_trip_def [symmetric]
      organizer_row_def [symmetric]
    using s snt acc rej vis listing by blast
qed


theorem createTrip_enrols_organizer_by_default_witness:
  "sent (snd (createTrip (labelled_backend (\<lambda>s. None)) (Some 5) demo_world)) =
     [AuthGetUser, InsertTrip ''bob'' (Some 5), InsertParticipant ''t2'' ''bob'' None] \<and>
   trip_participants (store (snd (createTrip (labelled_backend (\<lambda>s. None)) (Some 5) demo_world))) =
     [\<lparr>p_trip_id = ''t1'', p_user_id = ''alice'', p_status = Some ''joined''\<rparr>,
      \<lparr>p_trip_id = ''t2'', p_user_id = ''bob'', p_status = Some ''joined''\<rparr>] \<and>
   (\<exists>trips. fst (getUserJoinedTrips (labelled_backend (\<lambda>s. None)) ''bob''
                   (snd (createTrip (labelled_backend (\<lambda>s. None)) (Some 5) demo_world))) = Inr trips \<and>
            \<lparr>t_id = ''t2'', t_organizer_id = ''bob'', t_status = ''open'',
             t_max_participants = Some 5, t_current_participants = Some 1\<rparr> \<in> fst ` set trips) \<and>
   trip_participants (store (snd (createTrip ((labelled_backend (\<lambda>s. None))\<lparr>status_default := Some ''organizer''\<rparr>)
                                    (Some 5) demo_world))) =
     [\<lparr>p_trip_id = ''t1'', p_user_id = ''alice'', p_status = Some ''joined''\<rparr>,
      \<lparr>p_trip_id = ''t2'', p_user_id = ''bob'', p_status = Some ''organizer''\<rparr>] \<and>
   (\<exists>trips. fst (getUserJoinedTrips ((labelled_backend (\<lambda>s. None))\<lparr>status_default := Some ''organizer''\<rparr>) ''bob''
                   (snd (createTrip ((labelled_backend (\<lambda>s. None))\<lparr>status_default := Some ''organizer''\<rparr>)
                           (Some 5) demo_world))) = Inr trips \<and>
            \<lparr>t_id = ''t2'', t_organizer_id = ''bob'', t_status = ''open'',
             t_max_participants = Some 5, t_current_participants = Some 1\<rparr> \<notin> fst ` set trips)"
proof -
  let ?be1 = "labelled_backend (\<lambda>s. None)"
  let ?be2 = "(labelled_backend (\<lambda>s. None))\<lparr>status_default := Some ''organizer''\<rparr>"
  let ?trip = "\<lparr>t_id = ''t2'', t_organizer_id = ''bob'', t_status = ''open'',
             t_max_participants = Some 5, t_current_participants = Some (1::int)\<rparr>"
  have f: "faults ?be2 = faults ?be1" by simp
  have d: "status_default ?be1 = Some ''joined''" "status_default ?be2 = Some ''organizer''"
    by (simp_all add: labelled_backend_def)
  have c1: "fst (createTrip ?be1 (Some 5) demo_world) = Inr ?trip"
    by (simp add: createTrip_def getUser_def send_def insert_participant_def Let_def
        labelled_backend_def demo_world_def demo_db_def)
  have c2: "fst (createTrip ?be2 (Some 5) demo_world) = Inr ?trip"
    by (simp add: createTrip_def getUser_def send_def insert_participant_def Let_def
        labelled_backend_def demo_world_def demo_db_def)
  have o: "sent demo_world = []"
    "trip_participants (store demo_world) =
       [\<lparr>p_trip_id = ''t1'', p_user_id = ''alice'', p_status = Some ''joined''\<rparr>]"
    by (simp_all add: demo_world_def demo_db_def)
  show ?thesis
    using createTrip_enrols_organizer_by_default [where be = ?be1 and m = "Some 5" and w = demo_world
        and trip = ?trip]
      createTrip_enrols_organizer_by_default [where be = ?be2 and m = "Some 5" and w = demo_world
        and trip = ?trip]
    by (simp add: c1 c2 o f d Let_def labelled_faults getUserJoinedTrips_statuses_def)
qed

theorem createTrip_enrols_organizer_by_default_counterexample:
  "fst (createTrip enrol_refused (Some 5) demo_world) =
     Inr \<lparr>t_id = ''t2'', t_organizer_id = ''bob'', t_status = ''open'',
          t_max_participants = Some 5, t_current_participants = Some 1\<rparr> \<and>
   sent (snd (createTrip enrol_refused (Some 5) demo_world)) =
     [AuthGetUser, InsertTrip ''bob'' (Some 5), InsertParticipant ''t2'' ''bob'' None] \<and>
   trip_participants (store demo_world) =
     [\<lparr>p_trip_id = ''t1'', p_user_id = ''alice'', p_status = Some ''joined''\<rparr>] \<and>
   trip_participants (store (snd (createTrip enrol_refused (Some 5) demo_world))) =
     [\<lparr>p_trip_id = ''t1'', p_user_id = ''alice'', p_status = Some ''joined''\<rparr>]"
  by (simp add: createTrip_def getUser_def send_def insert_participant_def Let_def
      enrol_refused_def failing_faults failing_defaults demo_world_def demo_db_def)

section \<open>The size limit of avatar uploads\<close>

lemma ten_megabytes: "formatFileSize 10485760 = ''10 MB''"
  by (simp add: formatFileSize_def log1024.simps show_hundredths_def string_of_nat.simps
      digit_def sizes_def Let_def)

text \<open>
  Claim C8. For a file larger than 10 MB (10 * 1024 * 1024 bytes), \<^verbatim>\<open>uploadAvatar\<close>
  returns the result with empty URL and path and the error
  \<^verbatim>\<open>File size exceeds 10 MB limit\<close>, which names the limit of the avatar bucket. The
  world is returned as it was: no request is sent, so no object is stored and no metadata
  row is written, whatever the backend would have answered.
\<close>

theorem uploadAvatar_size_limit:
  "file_size f > 10 * 1024 * 1024 \<longrightarrow>
     uploadAvatar be unique f userId w =
       (\<lparr>r_url = [], r_path = [], r_error = Some ''File size exceeds 10 MB limit''\<rparr>, w)"
  by (simp add: uploadAvatar_def uploadFile_def size_error_def ten_megabytes)

theorem uploadAvatar_size_limit_witness:
  "uploadAvatar (labelled_backend (\<lambda>s. None)) ''1730000000000_k3x9'' 
      \<lparr>file_name = ''me.png'', file_size = 15 * 1024 * 1024, file_type = ''image/png''\<rparr> ''bob'' demo_world =
     (\<lparr>r_url = [], r_path = [], r_error = Some ''File size exceeds 10 MB limit''\<rparr>, demo_world)"
  using uploadAvatar_size_limit [where f = "\<lparr>file_name = ''me.png'', file_size = 15 * 1024 * 1024, file_type = ''image/png''\<rparr>"
      and be = "labelled_backend (\<lambda>s. None)" and unique = "''1730000000000_k3x9''" and userId = "''bob''" and w = demo_world]
  by simp

section \<open>The feed shows public posts only\<close>

lemma feed_page_public:
  "feed_page d limit offset = Inr ps \<Longrightarrow> p \<in> set ps \<Longrightarrow> post_is_public p \<and> p \<in> set (user_posts d)"
  by (auto simp: feed_page_def split: if_splits dest!: in_set_takeD in_set_dropD)

lemma getGlobalFeed_posts:
  "set (map fst (fst (getGlobalFeed be limit offset w))) \<subseteq>
     (case feed_page (store w) limit offset of Inl e \<Rightarrow> {} | Inr ps \<Rightarrow> set ps)"
  by (auto simp: getGlobalFeed_def send_def Let_def split: option.splits sum.splits prod.splits)

text \<open>
  Claim C7. Every post in a page returned by \<^verbatim>\<open>getGlobalFeed\<close> is a stored post whose
  \<^verbatim>\<open>is_public\<close> flag is true, for every limit and offset and whatever the backend
  answers: the posts query filters on the flag, the page is a slice of its rows, and the
  merge with the author profiles keeps the posts as they are.
\<close>

theorem getGlobalFeed_public_only:
  "\<forall>item \<in> set (fst (getGlobalFeed be limit offset w)).
     post_is_public (fst item) \<and> fst item \<in> set (user_posts (store w))"
proof
  fix item assume "item \<in> set (fst (getGlobalFeed be limit offset w))"
  then have "fst item \<in> set (map fst (fst (getGlobalFeed be limit offset w)))" by simp
  with getGlobalFeed_posts [of be limit offset w]
  obtain ps where "feed_page (store w) limit offset = Inr ps" "fst item \<in> set ps"
    by (auto split: sum.splits)
  then show "post_is_public (fst item) \<and> fst item \<in> set (user_posts (store w))"
    by (rule feed_page_public)
qed


theorem getGlobalFeed_public_only_witness:
  "map (\<lambda>item. (post_id (fst item), a_display_name (snd item)))
     (fst (getGlobalFeed (labelled_backend (\<lambda>s. None)) 10 0 feed_world)) =
     [(''p3'', ''Alice''), (''p1'', ''Anonymous User'')] \<and>
   list_all (\<lambda>item. post_is_public (fst item))
     (fst (getGlobalFeed (labelled_backend (\<lambda>s. None)) 10 0 feed_world))"
proof -
  have "map (\<lambda>item. (post_id (fst item), a_display_name (snd item)))
     (fst (getGlobalFeed (labelled_backend (\<lambda>s. None)) 10 0 feed_world)) =
     [(''p3'', ''Alice''), (''p1'', ''Anonymous User'')]"
    by (simp add: getGlobalFeed_def send_def labelled_faults feed_page_def feed_world_def demo_db_def
        Let_def anonymous_user_def author_of_def)
  moreover have "list_all (\<lambda>item. post_is_public (fst item))
     (fst (getGlobalFeed (labelled_backend (\<lambda>s. None)) 10 0 feed_world))"
    using getGlobalFeed_public_only [of "labelled_backend (\<lambda>s. None)" 10 0 feed_world]
    by (simp add: list_all_iff)
  ultimately show ?thesis by simp
qed

section \<open>Toggling a like\<close>









section \<open>Follower and following counters\<close>








































end
